theory Spec2Isabelle
  imports Main "HOL-Library.Char_ord" "HOL-Library.List_Lexorder"
begin

section \<open>Data model\<close>

text \<open>
  The per-environment queue consumer (\<^verbatim>\<open>EnvironmentQueueConsumer\<close>) and the event
  repository's \<^verbatim>\<open>recordEvent\<close>. Identifiers and other strings are byte strings; JavaScript
  compares strings by UTF-16 code unit, which on ASCII text is the order of
  \<^theory_text>\<open>char list\<close> used here. Dates are milliseconds since the epoch, and JavaScript
  numbers are modelled as integers.
\<close>

type_synonym ident = string
type_synonym date = int

datatype json =
    JNull
  | JBool bool
  | JNum int
  | JStr string
  | JArr "json list"
  | JObj "(string \<times> json) list"

datatype attr_value = AString string | ANumber int | ABoolean bool | ADate date | AUndefined

type_synonym attributes = "(string \<times> attr_value) list"

datatype thrown = ErrorObj string | NonError string

datatype outcome = Resolved | Rejected thrown

record retry_options =
  ro_maxAttempts :: "int option"
  ro_factor :: "int option"
  ro_minTimeoutInMs :: "int option"
  ro_maxTimeoutInMs :: "int option"
  ro_randomize :: "bool option"

record background_worker_task =
  bwt_id :: ident
  bwt_slug :: string
  bwt_filePath :: string
  bwt_exportName :: string
  bwt_workerId :: ident
  bwt_retryConfig :: "retry_options option"

record background_worker =
  bw_id :: ident
  bw_friendlyId :: ident
  bw_version :: string
  bw_runtimeEnvironmentId :: ident
  bw_tasks :: "background_worker_task list"

record task_tag =
  tag_id :: ident
  tag_name :: string

record task_run =
  tr_id :: ident
  tr_friendlyId :: ident
  tr_taskIdentifier :: string
  tr_queue :: string
  tr_payload :: string
  tr_payloadType :: string
  tr_context :: json
  tr_traceContext :: "(string \<times> string) list"
  tr_createdAt :: date
  tr_tags :: "task_tag list"
  tr_lockedAt :: "date option"
  tr_lockedById :: "ident option"
  tr_lockedToVersionId :: "ident option"

datatype attempt_status = EXECUTING | COMPLETED | FAILED

record task_run_attempt =
  tra_id :: ident
  tra_friendlyId :: ident
  tra_number :: int
  tra_taskRunId :: ident
  tra_createdAt :: date
  tra_startedAt :: "date option"
  tra_completedAt :: "date option"
  tra_backgroundWorkerId :: ident
  tra_backgroundWorkerTaskId :: ident
  tra_status :: attempt_status
  tra_queueId :: ident
  tra_output :: "string option"
  tra_outputType :: "string option"
  tra_error :: "string option"

record task_queue =
  tq_id :: ident
  tq_friendlyId :: ident
  tq_name :: string
  tq_runtimeEnvironmentId :: ident

record organization =
  org_id :: ident
  org_slug :: string
  org_title :: string

record project =
  proj_id :: ident
  proj_externalRef :: string
  proj_slug :: string
  proj_name :: string

record authenticated_environment =
  env_id :: ident
  env_slug :: string
  env_type :: string
  env_organizationId :: ident
  env_projectId :: ident
  env_organization :: organization
  env_project :: project

subsection \<open>The execution descriptor and the transport message\<close>

record exec_task =
  et_id :: string
  et_filePath :: string
  et_exportName :: string

record exec_attempt =
  ea_id :: ident
  ea_number :: int
  ea_startedAt :: date
  ea_backgroundWorkerId :: ident
  ea_backgroundWorkerTaskId :: ident
  ea_status :: attempt_status

record exec_run =
  er_id :: ident
  er_payload :: string
  er_payloadType :: string
  er_context :: json
  er_createdAt :: date
  er_tags :: "string list"

record exec_queue =
  eq_id :: ident
  eq_name :: string

record exec_environment =
  ee_id :: ident
  ee_slug :: string
  ee_type :: string

record exec_organization =
  eo_id :: ident
  eo_slug :: string
  eo_name :: string

record exec_project =
  ep_id :: ident
  ep_ref :: string
  ep_slug :: string
  ep_name :: string

record task_run_execution =
  ex_task :: exec_task
  ex_attempt :: exec_attempt
  ex_run :: exec_run
  ex_queue :: exec_queue
  ex_environment :: exec_environment
  ex_organization :: exec_organization
  ex_project :: exec_project

record execute_payload =
  pl_execution :: task_run_execution
  pl_traceContext :: "(string \<times> string) list"

datatype worker_data = EXECUTE_RUNS "execute_payload list"

datatype server_message =
    SERVER_READY ident
  | BACKGROUND_WORKER_MESSAGE ident worker_data

subsection \<open>The completion sent back by the worker\<close>

record retry_info =
  retry_timestamp :: date
  retry_delay :: int

datatype task_run_execution_result =
    ResultOk ident string string
  | ResultFailed ident string "retry_info option"

subsection \<open>Trace events\<close>

record creatable_event =
  ev_traceId :: string
  ev_spanId :: string
  ev_parentId :: "string option"
  ev_tracestate :: "string option"
  ev_message :: string
  ev_serviceName :: string
  ev_serviceNamespace :: string
  ev_level :: string
  ev_kind :: "string option"
  ev_status :: string
  ev_startTime :: date
  ev_isPartial :: bool
  ev_duration :: int
  ev_environmentId :: ident
  ev_environmentType :: string
  ev_organizationId :: ident
  ev_projectId :: ident
  ev_projectRef :: string
  ev_runId :: ident
  ev_taskSlug :: string
  ev_queueId :: "ident option"
  ev_queueName :: "string option"
  ev_properties :: attributes
  ev_metadata :: attributes
  ev_style :: attributes
  ev_output :: "attributes option"

record trace_attributes =
  ta_runId :: "ident option"
  ta_metadata :: "attributes option"
  ta_properties :: "attributes option"
  ta_style :: "attributes option"
  ta_queueId :: "ident option"
  ta_queueName :: "string option"

record trace_event_options =
  teo_kind :: "string option"
  teo_context :: "(string \<times> string) list option"
  teo_spanIdSeed :: "string option"
  teo_attributes :: trace_attributes
  teo_environment :: authenticated_environment
  teo_taskSlug :: string
  teo_startTime :: "date option"
  teo_endTime :: "date option"

text \<open>
  The attribute-name constants of \<^verbatim>\<open>SemanticInternalAttributes\<close> and
  \<^verbatim>\<open>SemanticResourceAttributes\<close> are declared outside the files at hand; they are
  parameters of the model.
\<close>

record semantic_attributes =
  sa_ENVIRONMENT_ID :: string
  sa_ENVIRONMENT_TYPE :: string
  sa_ORGANIZATION_ID :: string
  sa_PROJECT_ID :: string
  sa_PROJECT_REF :: string
  sa_RUN_ID :: string
  sa_TASK_SLUG :: string
  sa_SERVICE_NAME :: string
  sa_SERVICE_NAMESPACE :: string
  sa_STYLE_ICON :: string
  sa_STYLE :: string
  sa_METADATA :: string

section \<open>The collaborators: queue client, store, tracer, transport, timers\<close>

record queue_message =
  qm_messageId :: ident
  qm_data :: json

datatype queue_action = Ack ident | Nack ident "date option" | Heartbeat ident int

record marqs_state =
  mq_visible :: "queue_message list"
  mq_actions :: "queue_action list"

record store =
  taskRuns :: "task_run list"
  taskRunAttempts :: "task_run_attempt list"
  taskQueues :: "task_queue list"
  backgroundWorkerRows :: "background_worker list"

datatype span_event =
    StartSpan nat string
  | SetAttribute nat string int
  | RecordException nat string
  | EndSpan nat

text \<open>The external calls of the consumer; each may throw.\<close>

datatype call =
    Dequeue | Acknowledge | NackCall | HeartbeatCall
  | FindRun | UpdateRun | FindQueue | CreateAttempt | Transaction
  | FindWorker | UpdateAttempt | FindAttempt
  | Send | ParseContext

text \<open>
  Everything outside the consumer object. \<open>throwing\<close> says which external calls throw
  (and what); \<open>lockUpdateReturnsNull\<close> makes the locking update report no row, the result
  the dispatch loop tests for; \<open>stopLands\<close> says that \<^verbatim>\<open>stop()\<close> is called (the
  socket closes) while the iteration is suspended at an await. \<open>newAttemptId\<close> and
  \<open>newFriendlyId\<close> are the identifier the store and
  \<^verbatim>\<open>generateFriendlyId("attempt")\<close> produce next; \<open>sha1\<close>, the random
  identifiers, \<open>defaultRetryOptions\<close> and the two flattening functions are the library
  functions and constants the code imports.
\<close>

record world =
  now :: date
  marqs :: "marqs_state option"
  db :: store
  spans :: "span_event list"
  nextSpanId :: nat
  sent :: "server_message list"
  timers :: "int list"
  unhandledRejections :: "thrown list"
  eventBatch :: "creatable_event list"
  throwing :: "call \<Rightarrow> thrown option"
  lockUpdateReturnsNull :: bool
  stopLands :: bool
  newAttemptId :: ident
  newFriendlyId :: ident
  randomTraceId :: string
  randomSpanId :: string
  sha1 :: "string \<Rightarrow> nat list"
  defaultRetryOptions :: retry_options
  semantic :: semantic_attributes
  flattenAttributes :: "attributes \<Rightarrow> string \<Rightarrow> attributes"
  flattenContext :: "task_run_execution \<Rightarrow> attributes"

subsection \<open>Queue client\<close>

text \<open>
  Modelled from the spec: the queue client \<^verbatim>\<open>marqs\<close> is not among the files at hand.
  Dequeue hands out the next visible message of the environment; ack, nack and heartbeat
  are recorded in the order they are issued. The client object is optional in the code
  (\<^verbatim>\<open>marqs?.\<close>): without one every call is skipped and yields \<^verbatim>\<open>undefined\<close>.
\<close>

definition dequeueMessageInEnv :: "world \<Rightarrow> thrown + (queue_message option \<times> world)" where
  "dequeueMessageInEnv w =
     (case marqs w of
        None \<Rightarrow> Inr (None, w)
      | Some q \<Rightarrow>
          (case throwing w Dequeue of
             Some e \<Rightarrow> Inl e
           | None \<Rightarrow>
               (case mq_visible q of
                  [] \<Rightarrow> Inr (None, w)
                | m # ms \<Rightarrow> Inr (Some m, w\<lparr>marqs := Some (q\<lparr>mq_visible := ms\<rparr>)\<rparr>))))"

definition acknowledgeMessage :: "ident \<Rightarrow> world \<Rightarrow> thrown + world" where
  "acknowledgeMessage messageId w =
     (case marqs w of
        None \<Rightarrow> Inr w
      | Some q \<Rightarrow>
          (case throwing w Acknowledge of
             Some e \<Rightarrow> Inl e
           | None \<Rightarrow> Inr (w\<lparr>marqs := Some (q\<lparr>mq_actions := mq_actions q @ [Ack messageId]\<rparr>)\<rparr>)))"

definition nackMessage :: "ident \<Rightarrow> date option \<Rightarrow> world \<Rightarrow> thrown + world" where
  "nackMessage messageId retryAt w =
     (case marqs w of
        None \<Rightarrow> Inr w
      | Some q \<Rightarrow>
          (case throwing w NackCall of
             Some e \<Rightarrow> Inl e
           | None \<Rightarrow>
               Inr (w\<lparr>marqs := Some (q\<lparr>mq_actions := mq_actions q @ [Nack messageId retryAt]\<rparr>)\<rparr>)))"

definition heartbeatMessage :: "ident \<Rightarrow> int \<Rightarrow> world \<Rightarrow> thrown + world" where
  "heartbeatMessage messageId seconds w =
     (case marqs w of
        None \<Rightarrow> Inr w
      | Some q \<Rightarrow>
          (case throwing w HeartbeatCall of
             Some e \<Rightarrow> Inl e
           | None \<Rightarrow>
               Inr (w\<lparr>marqs := Some (q\<lparr>mq_actions := mq_actions q @ [Heartbeat messageId seconds]\<rparr>)\<rparr>)))"

subsection \<open>Store\<close>

text \<open>
  Modelled from the spec: the relational store (\<^verbatim>\<open>prisma\<close>) is not among the files at
  hand. Reads return the row or nothing; the locking update returns the updated row with
  its last attempt, or nothing when no row was updated; an insert that repeats an
  identifier throws, as does an update or delete by identifier of a row that is not there.
\<close>

definition taskRun_findUnique :: "ident \<Rightarrow> world \<Rightarrow> thrown + task_run option" where
  "taskRun_findUnique rid w =
     (case throwing w FindRun of
        Some e \<Rightarrow> Inl e
      | None \<Rightarrow> Inr (find (\<lambda>r. tr_id r = rid) (taskRuns (db w))))"

text \<open>The attempts of a run, greatest number first (\<^verbatim>\<open>orderBy: { number: "desc" }\<close>).\<close>

fun insertDesc :: "task_run_attempt \<Rightarrow> task_run_attempt list \<Rightarrow> task_run_attempt list" where
  "insertDesc a [] = [a]"
| "insertDesc a (b # bs) =
     (if tra_number b < tra_number a then a # b # bs else b # insertDesc a bs)"

definition attemptsDesc :: "ident \<Rightarrow> store \<Rightarrow> task_run_attempt list" where
  "attemptsDesc rid s =
     foldr insertDesc (filter (\<lambda>a. tra_taskRunId a = rid) (taskRunAttempts s)) []"

text \<open>The attempt numbers of a run, in the order the attempts were inserted.\<close>

definition attemptNumbers :: "ident \<Rightarrow> store \<Rightarrow> int list" where
  "attemptNumbers rid s =
     map tra_number (filter (\<lambda>a. tra_taskRunId a = rid) (taskRunAttempts s))"

definition taskRun_update_lock ::
  "ident \<Rightarrow> date \<Rightarrow> ident \<Rightarrow> world \<Rightarrow> thrown + ((task_run \<times> task_run_attempt list) option \<times> world)" where
  "taskRun_update_lock rid lockedAt lockedById w =
     (case throwing w UpdateRun of
        Some e \<Rightarrow> Inl e
      | None \<Rightarrow>
          if lockUpdateReturnsNull w then Inr (None, w)
          else
            (case find (\<lambda>r. tr_id r = rid) (taskRuns (db w)) of
               None \<Rightarrow> Inr (None, w)
             | Some r \<Rightarrow>
                 let r' = r\<lparr>tr_lockedAt := Some lockedAt, tr_lockedById := Some lockedById\<rparr>;
                     s' = (db w)\<lparr>taskRuns :=
                            map (\<lambda>x. if tr_id x = rid then r' else x) (taskRuns (db w))\<rparr>
                 in Inr (Some (r', take 1 (attemptsDesc rid (db w))), w\<lparr>db := s'\<rparr>)))"

definition taskQueue_findUnique :: "ident \<Rightarrow> string \<Rightarrow> world \<Rightarrow> thrown + task_queue option" where
  "taskQueue_findUnique envId name w =
     (case throwing w FindQueue of
        Some e \<Rightarrow> Inl e
      | None \<Rightarrow>
          Inr (find (\<lambda>q. tq_runtimeEnvironmentId q = envId \<and> tq_name q = name)
                 (taskQueues (db w))))"

definition taskRunAttempt_create ::
  "task_run_attempt \<Rightarrow> world \<Rightarrow> thrown + (task_run_attempt \<times> world)" where
  "taskRunAttempt_create a w =
     (case throwing w CreateAttempt of
        Some e \<Rightarrow> Inl e
      | None \<Rightarrow>
          if list_ex (\<lambda>b. tra_id b = tra_id a \<or> tra_friendlyId b = tra_friendlyId a)
               (taskRunAttempts (db w))
          then Inl (ErrorObj ''Unique constraint failed'')
          else Inr (a, w\<lparr>db := (db w)\<lparr>taskRunAttempts := taskRunAttempts (db w) @ [a]\<rparr>\<rparr>))"

text \<open>
  \<^verbatim>\<open>prisma.$transaction([taskRun.update(unlock), taskRunAttempt.delete])\<close>: both
  writes or neither.
\<close>

definition unlockAndDelete :: "ident \<Rightarrow> ident \<Rightarrow> world \<Rightarrow> thrown + world" where
  "unlockAndDelete rid aid w =
     (case throwing w Transaction of
        Some e \<Rightarrow> Inl e
      | None \<Rightarrow>
          if list_ex (\<lambda>r. tr_id r = rid) (taskRuns (db w))
             \<and> list_ex (\<lambda>a. tra_id a = aid) (taskRunAttempts (db w))
          then
            Inr (w\<lparr>db := (db w)\<lparr>
              taskRuns :=
                map (\<lambda>r. if tr_id r = rid then r\<lparr>tr_lockedAt := None, tr_lockedById := None\<rparr> else r)
                  (taskRuns (db w)),
              taskRunAttempts := filter (\<lambda>a. tra_id a \<noteq> aid) (taskRunAttempts (db w))\<rparr>\<rparr>)
          else Inl (ErrorObj ''Record not found''))"

definition backgroundWorker_findUnique ::
  "ident \<Rightarrow> ident \<Rightarrow> world \<Rightarrow> thrown + background_worker option" where
  "backgroundWorker_findUnique friendlyId envId w =
     (case throwing w FindWorker of
        Some e \<Rightarrow> Inl e
      | None \<Rightarrow>
          Inr (find (\<lambda>b. bw_friendlyId b = friendlyId \<and> bw_runtimeEnvironmentId b = envId)
                 (backgroundWorkerRows (db w))))"

definition taskRunAttempt_findUnique :: "ident \<Rightarrow> world \<Rightarrow> thrown + task_run_attempt option" where
  "taskRunAttempt_findUnique friendlyId w =
     (case throwing w FindAttempt of
        Some e \<Rightarrow> Inl e
      | None \<Rightarrow> Inr (find (\<lambda>a. tra_friendlyId a = friendlyId) (taskRunAttempts (db w))))"

text \<open>
  The completion update, by friendly identifier, with the run and the task of the
  attempt included. \<open>change\<close> is the \<^verbatim>\<open>data\<close> of the update.
\<close>

definition taskRunAttempt_update ::
  "ident \<Rightarrow> (task_run_attempt \<Rightarrow> task_run_attempt) \<Rightarrow> world \<Rightarrow>
     thrown + ((task_run_attempt \<times> task_run \<times> background_worker_task) \<times> world)" where
  "taskRunAttempt_update friendlyId change w =
     (case throwing w UpdateAttempt of
        Some e \<Rightarrow> Inl e
      | None \<Rightarrow>
          (case find (\<lambda>a. tra_friendlyId a = friendlyId) (taskRunAttempts (db w)) of
             None \<Rightarrow> Inl (ErrorObj ''Record to update not found'')
           | Some a \<Rightarrow>
               (case (find (\<lambda>r. tr_id r = tra_taskRunId a) (taskRuns (db w)),
                      find (\<lambda>t. bwt_id t = tra_backgroundWorkerTaskId a)
                        (concat (map bw_tasks (backgroundWorkerRows (db w))))) of
                  (Some r, Some t) \<Rightarrow>
                    Inr ((change a, r, t),
                         w\<lparr>db := (db w)\<lparr>taskRunAttempts :=
                              map (\<lambda>x. if tra_friendlyId x = friendlyId then change x else x)
                                (taskRunAttempts (db w))\<rparr>\<rparr>)
                | _ \<Rightarrow> Inl (ErrorObj ''Inconsistent relation''))))"

subsection \<open>Tracer, transport and timers\<close>

definition startSpan :: "string \<Rightarrow> world \<Rightarrow> nat \<times> world" where
  "startSpan name w =
     (nextSpanId w,
      w\<lparr>spans := spans w @ [StartSpan (nextSpanId w) name], nextSpanId := Suc (nextSpanId w)\<rparr>)"

definition spanLog :: "span_event list \<Rightarrow> world \<Rightarrow> world" where
  "spanLog es w = w\<lparr>spans := spans w @ es\<rparr>"

definition thrownMessage :: "thrown \<Rightarrow> string" where
  "thrownMessage e = (case e of ErrorObj m \<Rightarrow> m | NonError m \<Rightarrow> m)"

definition send :: "server_message \<Rightarrow> world \<Rightarrow> thrown + world" where
  "send m w =
     (case throwing w Send of
        Some e \<Rightarrow> Inl e
      | None \<Rightarrow> Inr (w\<lparr>sent := sent w @ [m]\<rparr>))"

definition setTimeout :: "int \<Rightarrow> world \<Rightarrow> world" where
  "setTimeout ms w = w\<lparr>timers := timers w @ [ms]\<rparr>"

section \<open>The event repository\<close>

text \<open>A JavaScript object with string keys: insertion order, one value per key.\<close>

fun obj_set :: "'k \<Rightarrow> 'v \<Rightarrow> ('k \<times> 'v) list \<Rightarrow> ('k \<times> 'v) list" where
  "obj_set k v [] = [(k, v)]"
| "obj_set k v ((k', v') # kvs) =
     (if k' = k then (k, v) # kvs else (k', v') # obj_set k v kvs)"

definition spread :: "('k \<times> 'v) list \<Rightarrow> ('k \<times> 'v) list \<Rightarrow> ('k \<times> 'v) list" where
  "spread a b = foldl (\<lambda>acc kv. obj_set (fst kv) (snd kv) acc) a b"

definition startsWith :: "string \<Rightarrow> string \<Rightarrow> bool" where
  "startsWith s p = (take (length p) s = p)"

definition stripAttributePrefix :: "attributes \<Rightarrow> string \<Rightarrow> attributes" where
  "stripAttributePrefix attrs p =
     foldl (\<lambda>result kv.
              if startsWith (fst kv) p
              then obj_set (drop (length p + 1) (fst kv)) (snd kv) result
              else obj_set (fst kv) (snd kv) result)
       [] attrs"

fun split_on :: "char \<Rightarrow> string \<Rightarrow> string list" where
  "split_on c [] = [[]]"
| "split_on c (x # xs) =
     (if x = c then [] # split_on c xs
      else (case split_on c xs of
              [] \<Rightarrow> [[x]]
            | y # ys \<Rightarrow> (x # y) # ys))"

definition parseTraceparent :: "string option \<Rightarrow> (string \<times> string) option" where
  "parseTraceparent traceparent =
     (case traceparent of
        None \<Rightarrow> None
      | Some tp \<Rightarrow>
          if tp = [] then None
          else
            (case split_on CHR ''-'' tp of
               [version, traceId, spanId, flags] \<Rightarrow>
                 if version \<noteq> ''00'' then None else Some (traceId, spanId)
             | _ \<Rightarrow> None))"

definition extractContextFromCarrier ::
  "(string \<times> string) list \<Rightarrow> (string \<times> string) option \<times> string option" where
  "extractContextFromCarrier carrier =
     (parseTraceparent (map_of carrier ''traceparent''), map_of carrier ''tracestate'')"

definition hexByte :: "nat \<Rightarrow> string" where
  "hexByte b = [''0123456789abcdef'' ! ((b mod 256) div 16), ''0123456789abcdef'' ! (b mod 16)]"

text \<open>
  The first eight bytes of the SHA-1 digest of trace identifier and seed, in hexadecimal.
  The digest function comes from \<^verbatim>\<open>node:crypto\<close> and is a parameter.
\<close>

definition generateDeterministicSpanId ::
  "(string \<Rightarrow> nat list) \<Rightarrow> string \<Rightarrow> string \<Rightarrow> string" where
  "generateDeterministicSpanId digest traceId seed =
     concat (map hexByte (take 8 (digest (traceId @ seed))))"

definition optAttr :: "string option \<Rightarrow> attr_value" where
  "optAttr v = (case v of None \<Rightarrow> AUndefined | Some s \<Rightarrow> AString s)"

text \<open>
  \<^verbatim>\<open>recordEvent\<close>, in two steps: the event it builds (or the error it throws), and the
  hand-over of the event to the flush scheduler's batch.
\<close>

definition buildEvent ::
  "string \<Rightarrow> trace_event_options \<Rightarrow> world \<Rightarrow> thrown + creatable_event" where
  "buildEvent message options w =
     (let propagatedContext =
            extractContextFromCarrier (case teo_context options of None \<Rightarrow> [] | Some c \<Rightarrow> c);
          startTime = (case teo_startTime options of None \<Rightarrow> now w | Some t \<Rightarrow> t);
          durationInMs = (case teo_endTime options of None \<Rightarrow> 100 | Some t \<Rightarrow> t - startTime);
          traceId = (case fst propagatedContext of None \<Rightarrow> randomTraceId w | Some tp \<Rightarrow> fst tp);
          parentId = map_option snd (fst propagatedContext);
          tracestate = snd propagatedContext;
          spanId =
            (case teo_spanIdSeed options of
               None \<Rightarrow> randomSpanId w
             | Some seed \<Rightarrow>
                 if seed = [] then randomSpanId w
                 else generateDeterministicSpanId (sha1 w) traceId seed);
          environment = teo_environment options;
          attrs = teo_attributes options;
          sa = semantic w;
          metadata =
            spread
              (obj_set (sa_SERVICE_NAMESPACE sa) (AString ''trigger.dev'')
              (obj_set (sa_SERVICE_NAME sa) (AString ''api server'')
              (obj_set (sa_TASK_SLUG sa) (AString (teo_taskSlug options))
              (obj_set (sa_RUN_ID sa) (optAttr (ta_runId attrs))
              (obj_set (sa_PROJECT_REF sa) (AString (proj_externalRef (env_project environment)))
              (obj_set (sa_PROJECT_ID sa) (AString (env_projectId environment))
              (obj_set (sa_ORGANIZATION_ID sa) (AString (env_organizationId environment))
              (obj_set (sa_ENVIRONMENT_TYPE sa) (AString (env_type environment))
              (obj_set (sa_ENVIRONMENT_ID sa) (AString (env_id environment)) [])))))))))
              (case ta_metadata attrs of None \<Rightarrow> [] | Some m \<Rightarrow> m);
          style = [(sa_STYLE_ICON sa, AString ''play'')]
      in
        (case ta_runId attrs of
           None \<Rightarrow> Inl (ErrorObj ''runId is required'')
         | Some runId \<Rightarrow>
             if runId = [] then Inl (ErrorObj ''runId is required'')
             else
               let event = \<lparr>
                     ev_traceId = traceId,
                     ev_spanId = spanId,
                     ev_parentId = parentId,
                     ev_tracestate = tracestate,
                     ev_message = message,
                     ev_serviceName = ''api server'',
                     ev_serviceNamespace = ''trigger.dev'',
                     ev_level = ''TRACE'',
                     ev_kind = teo_kind options,
                     ev_status = ''OK'',
                     ev_startTime = startTime,
                     ev_isPartial = False,
                     ev_duration = durationInMs * 1000000,
                     ev_environmentId = env_id environment,
                     ev_environmentType = env_type environment,
                     ev_organizationId = env_organizationId environment,
                     ev_projectId = env_projectId environment,
                     ev_projectRef = proj_externalRef (env_project environment),
                     ev_runId = runId,
                     ev_taskSlug = teo_taskSlug options,
                     ev_queueId = ta_queueId attrs,
                     ev_queueName = ta_queueName attrs,
                     ev_properties =
                       spread (spread style (flattenAttributes w metadata (sa_METADATA sa)))
                         (case ta_properties attrs of None \<Rightarrow> [] | Some p \<Rightarrow> p),
                     ev_metadata = metadata,
                     ev_style = stripAttributePrefix style (sa_STYLE sa),
                     ev_output = None \<rparr>
               in Inr event))"

definition recordEvent ::
  "string \<Rightarrow> trace_event_options \<Rightarrow> world \<Rightarrow> thrown + (creatable_event \<times> world)" where
  "recordEvent message options w =
     (case buildEvent message options w of
        Inl e \<Rightarrow> Inl e
      | Inr event \<Rightarrow> Inr (event, w\<lparr>eventBatch := eventBatch w @ [event]\<rparr>))"

section \<open>The environment queue consumer\<close>

record consumer_options =
  maximumItemsPerTrace :: int
  traceTimeoutSeconds :: int

text \<open>
  The fields of the class. \<open>backgroundWorkers\<close> is a JavaScript \<^verbatim>\<open>Map\<close>: insertion
  order, and a key set again keeps its place. A span context is the span it wraps.
\<close>

record consumer =
  env :: authenticated_environment
  backgroundWorkers :: "(ident \<times> background_worker) list"
  enabled :: bool
  options :: consumer_options
  perTraceCountdown :: "int option"
  lastNewTrace :: "date option"
  currentSpanContext :: "nat option"
  taskFailures :: int
  taskSuccesses :: int
  currentSpan :: "nat option"
  endSpanInNextIteration :: bool

definition constructor ::
  "authenticated_environment \<Rightarrow> int option \<Rightarrow> int option \<Rightarrow> consumer" where
  "constructor e maxItems timeoutSeconds = \<lparr>
     env = e,
     backgroundWorkers = [],
     enabled = False,
     options = \<lparr>
       maximumItemsPerTrace = (case maxItems of None \<Rightarrow> 1000 | Some n \<Rightarrow> n),
       traceTimeoutSeconds = (case timeoutSeconds of None \<Rightarrow> 60 | Some n \<Rightarrow> n) \<rparr>,
     perTraceCountdown = None,
     lastNewTrace = None,
     currentSpanContext = None,
     taskFailures = 0,
     taskSuccesses = 0,
     currentSpan = None,
     endSpanInNextIteration = False \<rparr>"

subsection \<open>Worker registry\<close>

definition getLatestBackgroundWorker :: "consumer \<Rightarrow> background_worker option" where
  "getLatestBackgroundWorker c =
     (case map snd (backgroundWorkers c) of
        [] \<Rightarrow> None
      | first # rest \<Rightarrow>
          Some (foldl (\<lambda>acc curr. if bw_version acc > bw_version curr then acc else curr)
                  first rest))"

text \<open>
  \<^verbatim>\<open>lockedToVersionId ? map.get(lockedToVersionId) : latest()\<close>; the empty string is
  falsy, as is \<^verbatim>\<open>null\<close>.
\<close>

definition selectBackgroundWorker :: "consumer \<Rightarrow> task_run \<Rightarrow> background_worker option" where
  "selectBackgroundWorker c existingTaskRun =
     (case tr_lockedToVersionId existingTaskRun of
        None \<Rightarrow> getLatestBackgroundWorker c
      | Some v \<Rightarrow>
          if v = [] then getLatestBackgroundWorker c
          else map_of (backgroundWorkers c) v)"

subsection \<open>One iteration of the dispatch loop\<close>

fun MessageBody_safeParse :: "json \<Rightarrow> string option" where
  "MessageBody_safeParse (JObj kvs) =
     (case map_of kvs ''type'' of
        Some (JStr t) \<Rightarrow>
          if t = ''EXECUTE''
          then (case map_of kvs ''taskIdentifier'' of
                  Some (JStr taskIdentifier) \<Rightarrow> Some taskIdentifier
                | _ \<Rightarrow> None)
          else None
      | _ \<Rightarrow> None)"
| "MessageBody_safeParse _ = None"

text \<open>The poison-message exit: acknowledge, resume in 100 ms.\<close>

definition ackAndResume :: "ident \<Rightarrow> consumer \<Rightarrow> world \<Rightarrow> outcome \<times> consumer \<times> world" where
  "ackAndResume messageId c w =
     (case acknowledgeMessage messageId w of
        Inl e \<Rightarrow> (Rejected e, c, w)
      | Inr w1 \<Rightarrow> (Resolved, c, setTimeout 100 w1))"

definition buildExecution ::
  "authenticated_environment \<Rightarrow> background_worker \<Rightarrow> background_worker_task \<Rightarrow>
     task_run \<Rightarrow> task_queue \<Rightarrow> task_run_attempt \<Rightarrow> task_run_execution" where
  "buildExecution e backgroundWorker backgroundTask lockedTaskRun queue taskRunAttempt = \<lparr>
     ex_task = \<lparr>
       et_id = bwt_slug backgroundTask,
       et_filePath = bwt_filePath backgroundTask,
       et_exportName = bwt_exportName backgroundTask \<rparr>,
     ex_attempt = \<lparr>
       ea_id = tra_friendlyId taskRunAttempt,
       ea_number = tra_number taskRunAttempt,
       ea_startedAt =
         (case tra_startedAt taskRunAttempt of
            None \<Rightarrow> tra_createdAt taskRunAttempt
          | Some t \<Rightarrow> t),
       ea_backgroundWorkerId = bw_id backgroundWorker,
       ea_backgroundWorkerTaskId = bwt_id backgroundTask,
       ea_status = EXECUTING \<rparr>,
     ex_run = \<lparr>
       er_id = tr_friendlyId lockedTaskRun,
       er_payload = tr_payload lockedTaskRun,
       er_payloadType = tr_payloadType lockedTaskRun,
       er_context = tr_context lockedTaskRun,
       er_createdAt = tr_createdAt lockedTaskRun,
       er_tags = map tag_name (tr_tags lockedTaskRun) \<rparr>,
     ex_queue = \<lparr> eq_id = tq_friendlyId queue, eq_name = tq_name queue \<rparr>,
     ex_environment = \<lparr> ee_id = env_id e, ee_slug = env_slug e, ee_type = env_type e \<rparr>,
     ex_organization = \<lparr>
       eo_id = org_id (env_organization e),
       eo_slug = org_slug (env_organization e),
       eo_name = org_title (env_organization e) \<rparr>,
     ex_project = \<lparr>
       ep_id = proj_id (env_project e),
       ep_ref = proj_externalRef (env_project e),
       ep_slug = proj_slug (env_project e),
       ep_name = proj_name (env_project e) \<rparr> \<rparr>"

definition executeRunsMessage ::
  "background_worker \<Rightarrow> task_run_execution \<Rightarrow> task_run \<Rightarrow> server_message" where
  "executeRunsMessage backgroundWorker execution lockedTaskRun =
     BACKGROUND_WORKER_MESSAGE (bw_friendlyId backgroundWorker)
       (EXECUTE_RUNS [\<lparr> pl_execution = execution,
                        pl_traceContext = tr_traceContext lockedTaskRun \<rparr>])"

text \<open>
  The identifier fields of an outbound message: the worker named at the top level, then
  per payload the \<^verbatim>\<open>id\<close> fields of attempt, run, queue, environment, organization and
  project and the two worker references of the attempt.
\<close>

definition descriptorIdentifiers :: "task_run_execution \<Rightarrow> ident list" where
  "descriptorIdentifiers x =
     [ea_id (ex_attempt x), ea_backgroundWorkerId (ex_attempt x),
      ea_backgroundWorkerTaskId (ex_attempt x), er_id (ex_run x), eq_id (ex_queue x),
      ee_id (ex_environment x), eo_id (ex_organization x), ep_id (ex_project x)]"

fun messageIdentifiers :: "server_message \<Rightarrow> ident list" where
  "messageIdentifiers (SERVER_READY connectionId) = []"
| "messageIdentifiers (BACKGROUND_WORKER_MESSAGE backgroundWorkerId (EXECUTE_RUNS payloads)) =
     backgroundWorkerId # concat (map (\<lambda>p. descriptorIdentifiers (pl_execution p)) payloads)"

text \<open>The primary keys (\<^verbatim>\<open>id\<close> columns) of the rows of the store and of the environment.\<close>

definition databaseIds :: "authenticated_environment \<Rightarrow> store \<Rightarrow> ident list" where
  "databaseIds e s =
     map tr_id (taskRuns s)
     @ map tra_id (taskRunAttempts s)
     @ map tq_id (taskQueues s)
     @ map bw_id (backgroundWorkerRows s)
     @ map bwt_id (concat (map bw_tasks (backgroundWorkerRows s)))
     @ [env_id e, org_id (env_organization e), proj_id (env_project e)]"

text \<open>
  The \<^verbatim>\<open>try { send } catch { ... } finally { setTimeout }\<close> at the end of the iteration.
  An exception thrown inside the catch block leaves through the finally block: the timer
  is set and the promise rejects.
\<close>

definition sendExecution ::
  "queue_message \<Rightarrow> server_message \<Rightarrow> task_run \<Rightarrow> task_run_attempt \<Rightarrow>
     consumer \<Rightarrow> world \<Rightarrow> outcome \<times> consumer \<times> world" where
  "sendExecution message m lockedTaskRun taskRunAttempt c w =
     (case send m w of
        Inr w1 \<Rightarrow> (Resolved, c, setTimeout 100 w1)
      | Inl e \<Rightarrow>
          let w1 = (case currentSpan c of
                      None \<Rightarrow> w
                    | Some s \<Rightarrow> spanLog [RecordException s (thrownMessage e)] w);
              c1 = c\<lparr>endSpanInNextIteration := True\<rparr>
          in
            (case unlockAndDelete (tr_id lockedTaskRun) (tra_id taskRunAttempt) w1 of
               Inl e' \<Rightarrow> (Rejected e', c1, setTimeout 100 w1)
             | Inr w2 \<Rightarrow>
                 (case nackMessage (qm_messageId message) None w2 of
                    Inl e' \<Rightarrow> (Rejected e', c1, setTimeout 100 w2)
                  | Inr w3 \<Rightarrow> (Resolved, c1, setTimeout 100 w3))))"

definition newAttempt ::
  "world \<Rightarrow> background_worker_task \<Rightarrow> task_run \<Rightarrow> task_run_attempt list \<Rightarrow> task_queue \<Rightarrow>
     task_run_attempt" where
  "newAttempt w backgroundTask lockedTaskRun attempts queue = \<lparr>
     tra_id = newAttemptId w,
     tra_friendlyId = newFriendlyId w,
     tra_number = (case attempts of [] \<Rightarrow> 1 | a # _ \<Rightarrow> tra_number a + 1),
     tra_taskRunId = tr_id lockedTaskRun,
     tra_createdAt = now w,
     tra_startedAt = Some (now w),
     tra_completedAt = None,
     tra_backgroundWorkerId = bwt_workerId backgroundTask,
     tra_backgroundWorkerTaskId = bwt_id backgroundTask,
     tra_status = EXECUTING,
     tra_queueId = tq_id queue,
     tra_output = None,
     tra_outputType = None,
     tra_error = None \<rparr>"

definition stop :: "consumer \<Rightarrow> consumer" where
  "stop c = c\<lparr>enabled := False\<rparr>"

text \<open>
  The consumer as the iteration finds it when it resumes from its first await, the
  dequeue. \<^verbatim>\<open>stop()\<close> only clears the flag, and the iteration reads the flag again at
  one place only, the abort check after the queue row is found: a \<^verbatim>\<open>stop()\<close> during any
  await before that check acts as one during the first, and a later one as one after the
  iteration.
\<close>

definition afterFirstAwait :: "consumer \<Rightarrow> world \<Rightarrow> consumer" where
  "afterFirstAwait c w = (if stopLands w then stop c else c)"

text \<open>
  \<^verbatim>\<open>#doWorkInternal\<close> in two parts. The first is everything up to the insertion of
  the attempt: it either leaves the iteration (empty queue, poison message, missing queue
  row, consumer disabled, or an exception of a collaborator) or hands on what the second
  part, building and sending the execution descriptor, works with.
\<close>

datatype prepared =
    Exit "outcome \<times> consumer \<times> world"
  | Dispatch queue_message background_worker background_worker_task task_run task_queue
      task_run_attempt world

definition prepareAttempt :: "consumer \<Rightarrow> world \<Rightarrow> prepared" where
  "prepareAttempt this w =
     (let c = afterFirstAwait this w in
      case dequeueMessageInEnv w of
        Inl e \<Rightarrow> Exit (Rejected e, c, w)
      | Inr (None, w1) \<Rightarrow> Exit (Resolved, c, setTimeout 1000 w1)
      | Inr (Some message, w1) \<Rightarrow>
     (case MessageBody_safeParse (qm_data message) of
        None \<Rightarrow> Exit (ackAndResume (qm_messageId message) c w1)
      | Some messageBody \<Rightarrow>
     (case taskRun_findUnique (qm_messageId message) w1 of
        Inl e \<Rightarrow> Exit (Rejected e, c, w1)
      | Inr None \<Rightarrow> Exit (ackAndResume (qm_messageId message) c w1)
      | Inr (Some existingTaskRun) \<Rightarrow>
     (case selectBackgroundWorker c existingTaskRun of
        None \<Rightarrow> Exit (ackAndResume (qm_messageId message) c w1)
      | Some backgroundWorker \<Rightarrow>
     (case find (\<lambda>task. bwt_slug task = tr_taskIdentifier existingTaskRun)
             (bw_tasks backgroundWorker) of
        None \<Rightarrow> Exit (ackAndResume (qm_messageId message) c w1)
      | Some backgroundTask \<Rightarrow>
     (case taskRun_update_lock (qm_messageId message) (now w1) (bwt_id backgroundTask) w1 of
        Inl e \<Rightarrow> Exit (Rejected e, c, w1)
      | Inr (None, w2) \<Rightarrow> Exit (ackAndResume (qm_messageId message) c w2)
      | Inr (Some (lockedTaskRun, attempts), w2) \<Rightarrow>
     (case taskQueue_findUnique (env_id (env c)) (tr_queue lockedTaskRun) w2 of
        Inl e \<Rightarrow> Exit (Rejected e, c, w2)
      | Inr None \<Rightarrow>
          (case nackMessage (qm_messageId message) None w2 of
             Inl e \<Rightarrow> Exit (Rejected e, c, w2)
           | Inr w3 \<Rightarrow> Exit (Resolved, c, setTimeout 1000 w3))
      | Inr (Some queue) \<Rightarrow>
          if \<not> enabled c then
            (case nackMessage (qm_messageId message) None w2 of
               Inl e \<Rightarrow> Exit (Rejected e, c, w2)
             | Inr w3 \<Rightarrow> Exit (Resolved, c, w3))
          else
     (case taskRunAttempt_create (newAttempt w2 backgroundTask lockedTaskRun attempts queue) w2 of
        Inl e \<Rightarrow> Exit (Rejected e, c, w2)
      | Inr (taskRunAttempt, w3) \<Rightarrow>
          Dispatch message backgroundWorker backgroundTask lockedTaskRun queue taskRunAttempt
            w3))))))))"

definition doWorkInternal :: "consumer \<Rightarrow> world \<Rightarrow> outcome \<times> consumer \<times> world" where
  "doWorkInternal c w =
     (case prepareAttempt c w of
        Exit r \<Rightarrow> r
      | Dispatch message backgroundWorker backgroundTask lockedTaskRun queue taskRunAttempt w3 \<Rightarrow>
          sendExecution message
            (executeRunsMessage backgroundWorker
               (buildExecution (env c) backgroundWorker backgroundTask lockedTaskRun queue
                  taskRunAttempt)
               lockedTaskRun)
            lockedTaskRun taskRunAttempt c w3)"

subsection \<open>The trace window and the loop\<close>

text \<open>
  The rollover test of \<^verbatim>\<open>#doWork\<close>, with JavaScript's left-to-right evaluation:
  \<^verbatim>\<open>this._lastNewTrace!.getTime()\<close> throws a TypeError on \<^verbatim>\<open>undefined\<close> unless the
  countdown test before it already holds.
\<close>

definition traceExpired :: "consumer \<Rightarrow> world \<Rightarrow> thrown + bool" where
  "traceExpired c w =
     (if perTraceCountdown c = Some 0 then Inr True
      else
        (case lastNewTrace c of
           None \<Rightarrow> Inl (ErrorObj ''TypeError'')
         | Some opened \<Rightarrow>
             Inr (now w - opened > traceTimeoutSeconds (options c) * 1000
                  \<or> currentSpanContext c = None
                  \<or> endSpanInNextIteration c)))"

definition rollover :: "consumer \<Rightarrow> world \<Rightarrow> consumer \<times> world" where
  "rollover c w =
     (let w1 = (case currentSpan c of
                  None \<Rightarrow> w
                | Some s \<Rightarrow>
                    spanLog [SetAttribute s ''tasks.period.failures'' (taskFailures c),
                             SetAttribute s ''tasks.period.successes'' (taskSuccesses c),
                             EndSpan s] w);
          started = startSpan ''EnvironmentQueueConsumer.doWork()'' w1
      in (c\<lparr>currentSpan := Some (fst started),
             currentSpanContext := Some (fst started),
             perTraceCountdown := Some (maximumItemsPerTrace (options c)),
             lastNewTrace := Some (now w),
             taskFailures := 0,
             taskSuccesses := 0,
             endSpanInNextIteration := False\<rparr>,
          snd started))"

text \<open>
  \<^verbatim>\<open>#doWork\<close>. The countdown is decremented only when \<^verbatim>\<open>#doWorkInternal\<close> resolves;
  \<^verbatim>\<open>undefined - 1\<close> is \<^verbatim>\<open>NaN\<close>, which like \<^verbatim>\<open>undefined\<close> is never \<^verbatim>\<open>=== 0\<close>.
\<close>

definition doWork :: "consumer \<Rightarrow> world \<Rightarrow> outcome \<times> consumer \<times> world" where
  "doWork c w =
     (if \<not> enabled c then (Resolved, c, w)
      else
        (case traceExpired c w of
           Inl e \<Rightarrow> (Rejected e, c, w)
         | Inr expired \<Rightarrow>
             let cw = (if expired then rollover c w else (c, w)) in
               (case doWorkInternal (fst cw) (snd cw) of
                  (Resolved, c2, w2) \<Rightarrow>
                    (Resolved,
                     c2\<lparr>perTraceCountdown := map_option (\<lambda>n. n - 1) (perTraceCountdown c2)\<rparr>,
                     w2)
                | (Rejected e, c2, w2) \<Rightarrow> (Rejected e, c2, w2))))"

text \<open>
  A promise nobody awaits: \<^verbatim>\<open>this.#doWork().finally(() => {})\<close> and the calls made by
  the timers. A rejection is left unhandled.
\<close>

definition detached :: "outcome \<times> consumer \<times> world \<Rightarrow> consumer \<times> world" where
  "detached r =
     (case r of
        (Resolved, c, w) \<Rightarrow> (c, w)
      | (Rejected e, c, w) \<Rightarrow> (c, w\<lparr>unhandledRejections := unhandledRejections w @ [e]\<rparr>))"

definition enable :: "consumer \<Rightarrow> world \<Rightarrow> consumer \<times> world" where
  "enable c w =
     (if enabled c then (c, w)
      else
        detached
          (doWork
             (c\<lparr>enabled := True,
                perTraceCountdown := Some (maximumItemsPerTrace (options c)),
                lastNewTrace := Some (now w),
                taskFailures := 0,
                taskSuccesses := 0\<rparr>)
             w))"

text \<open>The event loop runs the oldest timer: one more call of \<^verbatim>\<open>#doWork\<close>.\<close>

definition fireTimer :: "consumer \<Rightarrow> world \<Rightarrow> consumer \<times> world" where
  "fireTimer c w =
     (case timers w of
        [] \<Rightarrow> (c, w)
      | ms # rest \<Rightarrow> detached (doWork c (w\<lparr>timers := rest, now := now w + ms\<rparr>)))"

definition map_set :: "'k \<Rightarrow> 'v \<Rightarrow> ('k \<times> 'v) list \<Rightarrow> ('k \<times> 'v) list" where
  "map_set k v m = obj_set k v m"

definition registerBackgroundWorker ::
  "ident \<Rightarrow> consumer \<Rightarrow> world \<Rightarrow> outcome \<times> consumer \<times> world" where
  "registerBackgroundWorker friendlyId c w =
     (case backgroundWorker_findUnique friendlyId (env_id (env c)) w of
        Inl e \<Rightarrow> (Rejected e, c, w)
      | Inr None \<Rightarrow> (Resolved, c, w)
      | Inr (Some backgroundWorker) \<Rightarrow>
          let c1 = c\<lparr>backgroundWorkers :=
                      map_set (bw_id backgroundWorker) backgroundWorker (backgroundWorkers c)\<rparr>;
              r = enable c1 w
          in (Resolved, fst r, snd r))"


subsection \<open>Completion handler\<close>

fun showNat :: "nat \<Rightarrow> string" where
  "showNat n =
     (if n < 10 then [''0123456789'' ! n]
      else showNat (n div 10) @ [''0123456789'' ! (n mod 10)])"

definition showInt :: "int \<Rightarrow> string" where
  "showInt i = (if i < 0 then CHR ''-'' # showNat (nat (- i)) else showNat (nat i))"

text \<open>
  \<^verbatim>\<open>{ ...defaultRetryOptions, ...RetryOptions.parse(retryConfig) }\<close>: a key the stored
  configuration has wins over the default.
\<close>

definition orElse :: "'a option \<Rightarrow> 'a option \<Rightarrow> 'a option" where
  "orElse stored dflt = (case stored of None \<Rightarrow> dflt | Some v \<Rightarrow> Some v)"

definition mergeRetryOptions :: "retry_options \<Rightarrow> retry_options \<Rightarrow> retry_options" where
  "mergeRetryOptions dflt stored = \<lparr>
     ro_maxAttempts = orElse (ro_maxAttempts stored) (ro_maxAttempts dflt),
     ro_factor = orElse (ro_factor stored) (ro_factor dflt),
     ro_minTimeoutInMs = orElse (ro_minTimeoutInMs stored) (ro_minTimeoutInMs dflt),
     ro_maxTimeoutInMs = orElse (ro_maxTimeoutInMs stored) (ro_maxTimeoutInMs dflt),
     ro_randomize = orElse (ro_randomize stored) (ro_randomize dflt) \<rparr>"

text \<open>
  The message of the retry event. \<^verbatim>\<open>retryConfig?.maxAttempts\<close> is tested for truth, so
  \<^verbatim>\<open>0\<close> counts as absent. The attempt number is the one the worker reports in
  \<^verbatim>\<open>execution\<close>.
\<close>

definition retryMessage :: "retry_options option \<Rightarrow> int \<Rightarrow> string" where
  "retryMessage retryConfig n =
     (case (case retryConfig of None \<Rightarrow> None | Some rc \<Rightarrow> ro_maxAttempts rc) of
        None \<Rightarrow> ''Retry #'' @ showInt n @ '' delay''
      | Some maxAttempts \<Rightarrow>
          if maxAttempts = 0 then ''Retry #'' @ showInt n @ '' delay''
          else ''Retry '' @ showInt n @ ''/'' @ showInt (maxAttempts - 1) @ '' delay'')"

text \<open>
  \<^verbatim>\<open>#generateMetadataAttributesForNextAttempt\<close>: the context parsed from the execution,
  its attempt replaced by the next attempt number, flattened under \<^verbatim>\<open>ctx\<close>. Parsing
  and flattening are library functions; the parse may throw.
\<close>

definition generateMetadataAttributesForNextAttempt ::
  "world \<Rightarrow> task_run_execution \<Rightarrow> thrown + attributes" where
  "generateMetadataAttributesForNextAttempt w execution =
     (case throwing w ParseContext of
        Some e \<Rightarrow> Inl e
      | None \<Rightarrow>
          Inr (flattenContext w
                 (execution\<lparr>ex_attempt :=
                    (ex_attempt execution)\<lparr>ea_number := ea_number (ex_attempt execution) + 1\<rparr>\<rparr>)))"

definition numAttr :: "int option \<Rightarrow> attr_value" where
  "numAttr v = (case v of None \<Rightarrow> AUndefined | Some n \<Rightarrow> ANumber n)"

definition boolAttr :: "bool option \<Rightarrow> attr_value" where
  "boolAttr v = (case v of None \<Rightarrow> AUndefined | Some b \<Rightarrow> ABoolean b)"

definition retryEventOptions ::
  "consumer \<Rightarrow> task_run_attempt \<Rightarrow> task_run \<Rightarrow> retry_options option \<Rightarrow> date \<Rightarrow> attributes \<Rightarrow>
     trace_event_options" where
  "retryEventOptions c taskRunAttempt taskRun retryConfig retryAt metadata = \<lparr>
     teo_kind = None,
     teo_context = Some (tr_traceContext taskRun),
     teo_spanIdSeed = Some (''retry-'' @ showInt (tra_number taskRunAttempt + 1)),
     teo_attributes = \<lparr>
       ta_runId = Some (tra_taskRunId taskRunAttempt),
       ta_metadata = Some metadata,
       ta_properties = Some
         [(''retryAt'', ADate retryAt),
          (''factor'', numAttr (case retryConfig of None \<Rightarrow> None | Some rc \<Rightarrow> ro_factor rc)),
          (''maxAttempts'',
             numAttr (case retryConfig of None \<Rightarrow> None | Some rc \<Rightarrow> ro_maxAttempts rc)),
          (''minTimeoutInMs'',
             numAttr (case retryConfig of None \<Rightarrow> None | Some rc \<Rightarrow> ro_minTimeoutInMs rc)),
          (''maxTimeoutInMs'',
             numAttr (case retryConfig of None \<Rightarrow> None | Some rc \<Rightarrow> ro_maxTimeoutInMs rc)),
          (''randomize'',
             boolAttr (case retryConfig of None \<Rightarrow> None | Some rc \<Rightarrow> ro_randomize rc))],
       ta_style = Some [(''icon'', AString ''schedule-attempt'')],
       ta_queueId = Some (tra_queueId taskRunAttempt),
       ta_queueName = Some (tr_queue taskRun) \<rparr>,
     teo_environment = env c,
     teo_taskSlug = tr_taskIdentifier taskRun,
     teo_startTime = None,
     teo_endTime = Some retryAt \<rparr>"

definition scheduleRetry ::
  "retry_info \<Rightarrow> task_run_execution \<Rightarrow> task_run_attempt \<Rightarrow> task_run \<Rightarrow>
     background_worker_task \<Rightarrow> consumer \<Rightarrow> world \<Rightarrow> outcome \<times> consumer \<times> world" where
  "scheduleRetry retry execution taskRunAttempt taskRun backgroundWorkerTask c w =
     (let retryConfig =
            (case bwt_retryConfig backgroundWorkerTask of
               None \<Rightarrow> None
             | Some stored \<Rightarrow> Some (mergeRetryOptions (defaultRetryOptions w) stored));
          retryAt = retry_timestamp retry
      in
        (case generateMetadataAttributesForNextAttempt w execution of
           Inl e \<Rightarrow> (Rejected e, c, w)
         | Inr metadata \<Rightarrow>
             (case recordEvent
                     (retryMessage retryConfig (ea_number (ex_attempt execution)))
                     (retryEventOptions c taskRunAttempt taskRun retryConfig retryAt metadata) w of
                Inl e \<Rightarrow> (Rejected e, c, w)
              | Inr (event, w1) \<Rightarrow>
                  (case nackMessage (tra_taskRunId taskRunAttempt)
                          (Some (retry_timestamp retry)) w1 of
                     Inl e \<Rightarrow> (Rejected e, c, w1)
                   | Inr w2 \<Rightarrow> (Resolved, c, w2)))))"

definition completionUpdate ::
  "task_run_execution_result \<Rightarrow> world \<Rightarrow>
     thrown + ((task_run_attempt \<times> task_run \<times> background_worker_task) \<times> world)" where
  "completionUpdate completion w =
     (case completion of
        ResultOk cid output outputType \<Rightarrow>
          taskRunAttempt_update cid
            (\<lambda>a. a\<lparr>tra_status := COMPLETED,
                   tra_completedAt := Some (now w),
                   tra_output := Some output,
                   tra_outputType := Some outputType\<rparr>) w
      | ResultFailed cid err retry \<Rightarrow>
          taskRunAttempt_update cid
            (\<lambda>a. a\<lparr>tra_status := FAILED,
                   tra_completedAt := Some (now w),
                   tra_error := Some err\<rparr>) w)"

definition taskRunCompleted ::
  "ident \<Rightarrow> task_run_execution_result \<Rightarrow> task_run_execution \<Rightarrow> consumer \<Rightarrow> world \<Rightarrow>
     outcome \<times> consumer \<times> world" where
  "taskRunCompleted workerId completion execution c w =
     (case completionUpdate completion w of
        Inl e \<Rightarrow> (Rejected e, c, w)
      | Inr ((taskRunAttempt, taskRun, backgroundWorkerTask), w1) \<Rightarrow>
          let c1 = (if tra_status taskRunAttempt = COMPLETED
                    then c\<lparr>taskSuccesses := taskSuccesses c + 1\<rparr>
                    else c\<lparr>taskFailures := taskFailures c + 1\<rparr>)
          in
            (case completion of
               ResultFailed cid err (Some retry) \<Rightarrow>
                 scheduleRetry retry execution taskRunAttempt taskRun backgroundWorkerTask c1 w1
             | _ \<Rightarrow>
                 (case acknowledgeMessage (tra_taskRunId taskRunAttempt) w1 of
                    Inl e \<Rightarrow> (Rejected e, c1, w1)
                  | Inr w2 \<Rightarrow> (Resolved, c1, w2))))"

definition taskHeartbeat ::
  "ident \<Rightarrow> ident \<Rightarrow> int option \<Rightarrow> consumer \<Rightarrow> world \<Rightarrow> outcome \<times> consumer \<times> world" where
  "taskHeartbeat workerId friendlyId seconds c w =
     (case taskRunAttempt_findUnique friendlyId w of
        Inl e \<Rightarrow> (Rejected e, c, w)
      | Inr None \<Rightarrow> (Resolved, c, w)
      | Inr (Some taskRunAttempt) \<Rightarrow>
          (case heartbeatMessage (tra_taskRunId taskRunAttempt)
                  (case seconds of None \<Rightarrow> 60 | Some n \<Rightarrow> n) w of
             Inl e \<Rightarrow> (Rejected e, c, w)
           | Inr w1 \<Rightarrow> (Resolved, c, w1)))"

section \<open>Concrete scenarios\<close>

text \<open>
  The setting of the spec's seed scenarios: one environment, one queue, the task
  \<^verbatim>\<open>send-email\<close> with \<^verbatim>\<open>maxAttempts = 3\<close>, worker versions of one bundle, and the run
  \<^verbatim>\<open>r1\<close> waiting in the queue.
\<close>

definition scn_env :: authenticated_environment where
  "scn_env = \<lparr>
     env_id = ''env_1'', env_slug = ''dev'', env_type = ''DEVELOPMENT'',
     env_organizationId = ''org_1'', env_projectId = ''proj_1'',
     env_organization = \<lparr> org_id = ''org_1'', org_slug = ''acme'', org_title = ''Acme'' \<rparr>,
     env_project = \<lparr> proj_id = ''proj_1'', proj_externalRef = ''proj_abcdefghij'',
                       proj_slug = ''shop'', proj_name = ''Shop'' \<rparr> \<rparr>"

definition scn_task :: "ident \<Rightarrow> ident \<Rightarrow> background_worker_task" where
  "scn_task tid wid = \<lparr>
     bwt_id = tid, bwt_slug = ''send-email'', bwt_filePath = ''src/email.ts'',
     bwt_exportName = ''sendEmail'', bwt_workerId = wid,
     bwt_retryConfig = Some \<lparr> ro_maxAttempts = Some 3, ro_factor = None,
       ro_minTimeoutInMs = None, ro_maxTimeoutInMs = None, ro_randomize = None \<rparr> \<rparr>"

definition scn_worker :: "ident \<Rightarrow> ident \<Rightarrow> string \<Rightarrow> ident \<Rightarrow> background_worker" where
  "scn_worker wid friendly version tid = \<lparr>
     bw_id = wid, bw_friendlyId = friendly, bw_version = version,
     bw_runtimeEnvironmentId = ''env_1'', bw_tasks = [scn_task tid wid] \<rparr>"

definition scn_w1 :: background_worker where
  "scn_w1 = scn_worker ''cw_1'' ''worker_one'' ''20240101.1'' ''ct_1''"

definition scn_w2 :: background_worker where
  "scn_w2 = scn_worker ''cw_2'' ''worker_two'' ''20240101.2'' ''ct_2''"

definition scn_w10 :: background_worker where
  "scn_w10 = scn_worker ''cw_10'' ''worker_ten'' ''20240101.10'' ''ct_10''"

definition scn_run :: task_run where
  "scn_run = \<lparr>
     tr_id = ''cr_1'', tr_friendlyId = ''run_one'', tr_taskIdentifier = ''send-email'',
     tr_queue = ''task/send-email'', tr_payload = ''{}'', tr_payloadType = ''application/json'',
     tr_context = JNull, tr_traceContext = [(''traceparent'', ''00-abc-def-01'')],
     tr_createdAt = 1000, tr_tags = [\<lparr> tag_id = ''ctag_1'', tag_name = ''vip'' \<rparr>],
     tr_lockedAt = None, tr_lockedById = None, tr_lockedToVersionId = None \<rparr>"

definition scn_queue :: task_queue where
  "scn_queue = \<lparr> tq_id = ''cq_1'', tq_friendlyId = ''queue_one'', tq_name = ''task/send-email'',
                  tq_runtimeEnvironmentId = ''env_1'' \<rparr>"

definition scn_message :: queue_message where
  "scn_message = \<lparr> qm_messageId = ''cr_1'',
       qm_data = JObj [(''type'', JStr ''EXECUTE''), (''taskIdentifier'', JStr ''send-email'')] \<rparr>"

definition scn_semantic :: semantic_attributes where
  "scn_semantic = \<lparr>
     sa_ENVIRONMENT_ID = ''ctx.environment.id'', sa_ENVIRONMENT_TYPE = ''ctx.environment.type'',
     sa_ORGANIZATION_ID = ''ctx.organization.id'', sa_PROJECT_ID = ''ctx.project.id'',
     sa_PROJECT_REF = ''ctx.project.ref'', sa_RUN_ID = ''ctx.run.id'',
     sa_TASK_SLUG = ''ctx.task.id'', sa_SERVICE_NAME = ''service.name'',
     sa_SERVICE_NAMESPACE = ''service.namespace'', sa_STYLE_ICON = ''$style.icon'',
     sa_STYLE = ''$style'', sa_METADATA = ''$metadata'' \<rparr>"

definition scn_store :: store where
  "scn_store = \<lparr> taskRuns = [scn_run], taskRunAttempts = [], taskQueues = [scn_queue],
                  backgroundWorkerRows = [scn_w1, scn_w2, scn_w10] \<rparr>"

definition scn_world :: world where
  "scn_world = \<lparr>
     now = 5000,
     marqs = Some \<lparr> mq_visible = [scn_message], mq_actions = [] \<rparr>,
     db = scn_store,
     spans = [StartSpan 0 ''EnvironmentQueueConsumer.doWork()''], nextSpanId = 1,
     sent = [], timers = [], unhandledRejections = [],
     eventBatch = [],
     throwing = (\<lambda>_. None),
     lockUpdateReturnsNull = False,
     stopLands = False,
     newAttemptId = ''ca_1'', newFriendlyId = ''attempt_one'',
     randomTraceId = ''0123456789abcdef0123456789abcdef'', randomSpanId = ''0123456789abcdef'',
     sha1 = (\<lambda>s. map of_char s),
     defaultRetryOptions = \<lparr> ro_maxAttempts = Some 10, ro_factor = Some 2,
       ro_minTimeoutInMs = Some 1000, ro_maxTimeoutInMs = Some 60000,
       ro_randomize = Some True \<rparr>,
     semantic = scn_semantic,
     flattenAttributes = (\<lambda>attrs p. map (\<lambda>kv. (p @ ''.'' @ fst kv, snd kv)) attrs),
     flattenContext = (\<lambda>x. [(''ctx.attempt.number'', ANumber (ea_number (ex_attempt x)))]) \<rparr>"

definition scn_consumer :: consumer where
  "scn_consumer = constructor scn_env None None"

text \<open>
  Before anything is enqueued: the queue is empty and no span is open. Registering
  \<^verbatim>\<open>20240101.1\<close> and then \<^verbatim>\<open>20240101.2\<close> there gives \<open>scn_running\<close>, the
  consumer the other scenarios start from.
\<close>

definition scn_idle :: world where
  "scn_idle = scn_world\<lparr>marqs := Some \<lparr> mq_visible = [], mq_actions = [] \<rparr>,
                         spans := [], nextSpanId := 0\<rparr>"

definition scn_registered :: "outcome \<times> consumer \<times> world" where
  "scn_registered =
     (let r1 = registerBackgroundWorker ''worker_one'' scn_consumer scn_idle
      in registerBackgroundWorker ''worker_two'' (fst (snd r1)) (snd (snd r1)))"

definition scn_running :: consumer where
  "scn_running = scn_consumer\<lparr>
     backgroundWorkers := [(''cw_1'', scn_w1), (''cw_2'', scn_w2)],
     enabled := True,
     perTraceCountdown := Some 999,
     lastNewTrace := Some 5000,
     currentSpanContext := Some 0,
     currentSpan := Some 0\<rparr>"

text \<open>
  Scenario S1, after the dispatch: the run locked by the task of \<^verbatim>\<open>20240101.2\<close>,
  attempt 1 executing; and scenario S2, the completion that asks for a retry at 9000.
\<close>

definition scn_locked_run :: task_run where
  "scn_locked_run = scn_run\<lparr>tr_lockedAt := Some 5000, tr_lockedById := Some ''ct_2''\<rparr>"

definition scn_attempt :: task_run_attempt where
  "scn_attempt = \<lparr>
     tra_id = ''ca_1'', tra_friendlyId = ''attempt_one'', tra_number = 1,
     tra_taskRunId = ''cr_1'', tra_createdAt = 5000, tra_startedAt = Some 5000,
     tra_completedAt = None, tra_backgroundWorkerId = ''cw_2'',
     tra_backgroundWorkerTaskId = ''ct_2'', tra_status = EXECUTING, tra_queueId = ''cq_1'',
     tra_output = None, tra_outputType = None, tra_error = None \<rparr>"

definition scn_execution :: task_run_execution where
  "scn_execution =
     buildExecution scn_env scn_w2 (scn_task ''ct_2'' ''cw_2'') scn_locked_run scn_queue scn_attempt"

definition scn_dispatched :: world where
  "scn_dispatched = scn_world\<lparr>
     marqs := Some \<lparr> mq_visible = [], mq_actions = [] \<rparr>,
     db := scn_store\<lparr>taskRuns := [scn_locked_run], taskRunAttempts := [scn_attempt]\<rparr>,
     sent := [executeRunsMessage scn_w2 scn_execution scn_locked_run],
     timers := [100]\<rparr>"

definition scn_retry_completion :: task_run_execution_result where
  "scn_retry_completion =
     ResultFailed ''attempt_one'' ''boom'' (Some \<lparr> retry_timestamp = 9000, retry_delay = 4000 \<rparr>)"

text \<open>The message of \<^verbatim>\<open>r1\<close> delivered again after attempt 1 has failed.\<close>

definition scn_redelivered :: world where
  "scn_redelivered = scn_world\<lparr>
     db := scn_store\<lparr>
       taskRuns := [scn_locked_run],
       taskRunAttempts := [scn_attempt\<lparr>tra_status := FAILED, tra_completedAt := Some 5000,
                                       tra_error := Some ''boom''\<rparr>]\<rparr>,
     newAttemptId := ''ca_2'', newFriendlyId := ''attempt_two''\<rparr>"

text \<open>The window after a transport failure: the force-rollover flag is set.\<close>

definition scn_flagged :: consumer where
  "scn_flagged = scn_running\<lparr>endSpanInNextIteration := True, taskFailures := 2,
                              taskSuccesses := 5\<rparr>"

text \<open>Scenario S5: a message whose body is not an \<^verbatim>\<open>EXECUTE\<close> message.\<close>

definition scn_poisoned :: world where
  "scn_poisoned = scn_world\<lparr>marqs := Some \<lparr>
     mq_visible = [\<lparr> qm_messageId = ''cr_1'', qm_data = JObj [(''type'', JStr ''UNKNOWN'')] \<rparr>],
     mq_actions = [] \<rparr>\<rparr>"

text \<open>The socket closes while the iteration of scenario S1 awaits.\<close>

definition scn_stopping :: world where
  "scn_stopping = scn_world\<lparr>stopLands := True\<rparr>"

text \<open>Scenario S6: the transport throws.\<close>

definition scn_send_fails :: world where
  "scn_send_fails = scn_world\<lparr>throwing := (\<lambda>k. if k = Send then Some (ErrorObj ''socket closed'') else None)\<rparr>"

text \<open>Scenario S6 with the rollback transaction throwing as well.\<close>

definition scn_rollback_fails :: world where
  "scn_rollback_fails = scn_world\<lparr>throwing :=
     (\<lambda>k. if k = Send then Some (ErrorObj ''socket closed'')
          else if k = Transaction then Some (ErrorObj ''deadlock'')
          else None)\<rparr>"

text \<open>
  Scenario S6 for a message delivered again while attempt 1 of the run is still stored as
  executing.
\<close>

definition scn_stale :: world where
  "scn_stale = scn_send_fails\<lparr>
     db := scn_store\<lparr>taskRunAttempts := [scn_attempt]\<rparr>,
     newAttemptId := ''ca_2'', newFriendlyId := ''attempt_two''\<rparr>"

text \<open>The run pinned to a worker version that is not registered on this connection.\<close>

definition scn_pinned_miss :: world where
  "scn_pinned_miss =
     scn_world\<lparr>db := scn_store\<lparr>taskRuns := [scn_run\<lparr>tr_lockedToVersionId := Some ''cw_9''\<rparr>]\<rparr>\<rparr>"

text \<open>The queue client is down: dequeue throws.\<close>

definition scn_queue_down :: world where
  "scn_queue_down = scn_world\<lparr>throwing := (\<lambda>k. if k = Dequeue then Some (ErrorObj ''connection lost'') else None)\<rparr>"

text \<open>A registry holding \<^verbatim>\<open>20240101.2\<close> and \<^verbatim>\<open>20240101.10\<close>.\<close>

definition scn_ten :: consumer where
  "scn_ten = scn_running\<lparr>backgroundWorkers := [(''cw_2'', scn_w2), (''cw_10'', scn_w10)]\<rparr>"

section \<open>Properties\<close>

lemmas scn_defs = scn_idle_def scn_registered_def scn_running_def scn_poisoned_def
  scn_send_fails_def scn_queue_down_def scn_ten_def scn_world_def scn_consumer_def
  scn_locked_run_def scn_attempt_def scn_execution_def scn_dispatched_def
  scn_retry_completion_def scn_redelivered_def scn_flagged_def scn_stopping_def
  scn_rollback_fails_def scn_stale_def scn_pinned_miss_def
  scn_store_def scn_w1_def scn_w2_def scn_w10_def scn_worker_def scn_task_def scn_env_def
  scn_run_def scn_queue_def scn_message_def scn_semantic_def constructor_def

lemmas step_defs = registerBackgroundWorker_def backgroundWorker_findUnique_def enable_def
  doWork_def traceExpired_def rollover_def doWorkInternal_def prepareAttempt_def
  dequeueMessageInEnv_def taskRun_findUnique_def taskRun_update_lock_def
  taskQueue_findUnique_def taskRunAttempt_create_def ackAndResume_def nackMessage_def
  acknowledgeMessage_def setTimeout_def sendExecution_def send_def detached_def
  startSpan_def spanLog_def map_set_def selectBackgroundWorker_def
  getLatestBackgroundWorker_def newAttempt_def attemptsDesc_def fireTimer_def
  unlockAndDelete_def afterFirstAwait_def stop_def

lemmas prepare_defs = prepareAttempt_def dequeueMessageInEnv_def taskRun_findUnique_def
  taskRun_update_lock_def taskQueue_findUnique_def taskRunAttempt_create_def
  ackAndResume_def nackMessage_def acknowledgeMessage_def setTimeout_def Let_def

subsection \<open>The registry's reducer\<close>

lemma foldl_latest_mem:
  "foldl (\<lambda>acc curr. if bw_version acc > bw_version curr then acc else curr) x xs \<in> set (x # xs)"
  by (induction xs arbitrary: x) auto

lemma foldl_latest_ge_acc:
  "bw_version x \<le> bw_version (foldl (\<lambda>acc curr. if bw_version acc > bw_version curr then acc else curr) x xs)"
proof (induction xs arbitrary: x)
  case Nil
  show ?case by simp
next
  case (Cons y ys)
  show ?case
  proof (cases "bw_version x > bw_version y")
    case True
    then show ?thesis using Cons.IH [of x] by simp
  next
    case False
    then have "bw_version x \<le> bw_version y" by simp
    also have "bw_version y \<le> bw_version (foldl (\<lambda>acc curr. if bw_version acc > bw_version curr then acc else curr) y ys)"
      by (rule Cons.IH)
    finally show ?thesis using False by simp
  qed
qed

lemma foldl_latest_greatest:
  "y \<in> set (x # xs) \<Longrightarrow>
   bw_version y \<le> bw_version (foldl (\<lambda>acc curr. if bw_version acc > bw_version curr then acc else curr) x xs)"
proof (induction xs arbitrary: x)
  case Nil
  then show ?case by simp
next
  case (Cons z zs)
  show ?case
  proof (cases "y = x")
    case True
    then show ?thesis using foldl_latest_ge_acc [of x "z # zs"] by simp
  next
    case False
    with Cons.prems have mem: "y \<in> set (z # zs)" by simp
    show ?thesis
    proof (cases "bw_version x > bw_version z")
      case True
      have "y \<in> set (x # zs) \<or> y = z" using mem by auto
      then show ?thesis
      proof
        assume "y \<in> set (x # zs)"
        then show ?thesis using Cons.IH [of x] True by simp
      next
        assume "y = z"
        then have "bw_version y \<le> bw_version x" using True by simp
        also have "\<dots> \<le> bw_version (foldl (\<lambda>acc curr. if bw_version acc > bw_version curr then acc else curr) x zs)"
          by (rule foldl_latest_ge_acc)
        finally show ?thesis using True by simp
      qed
    next
      case False
      then show ?thesis using Cons.IH [of z] mem by simp
    qed
  qed
qed

lemma latest_none: "(getLatestBackgroundWorker c = None) = (backgroundWorkers c = [])"
  by (cases "backgroundWorkers c") (simp_all add: getLatestBackgroundWorker_def)

lemma latest_some:
  assumes "getLatestBackgroundWorker c = Some b"
  shows "b \<in> snd ` set (backgroundWorkers c)"
    and "b' \<in> snd ` set (backgroundWorkers c) \<Longrightarrow> bw_version b' \<le> bw_version b"
proof -
  obtain x xs where xs: "map snd (backgroundWorkers c) = x # xs"
    and b: "b = foldl (\<lambda>acc curr. if bw_version acc > bw_version curr then acc else curr) x xs"
    using assms by (auto simp: getLatestBackgroundWorker_def split: list.splits)
  have set_eq: "snd ` set (backgroundWorkers c) = set (x # xs)"
    using xs by (metis set_map)
  show "b \<in> snd ` set (backgroundWorkers c)"
    unfolding set_eq b by (rule foldl_latest_mem)
  show "b' \<in> snd ` set (backgroundWorkers c) \<Longrightarrow> bw_version b' \<le> bw_version b"
    unfolding set_eq b by (rule foldl_latest_greatest)
qed

subsection \<open>What one iteration does\<close>

text \<open>
  When the first part of the iteration hands on to the send, the message was dequeued, its
  run found and locked, a worker and task selected, the queue row found, the consumer
  enabled, and the attempt inserted.
\<close>

lemma prepareAttempt_DispatchD:
  assumes "prepareAttempt c w = Dispatch message bw task run queue att w3"
  shows "\<exists>q rest existing.
      marqs w = Some q \<and> mq_visible q = message # rest \<and>
      find (\<lambda>r. tr_id r = qm_messageId message) (taskRuns (db w)) = Some existing \<and>
      selectBackgroundWorker c existing = Some bw \<and>
      find (\<lambda>t. bwt_slug t = tr_taskIdentifier existing) (bw_tasks bw) = Some task \<and>
      run = existing\<lparr>tr_lockedAt := Some (now w), tr_lockedById := Some (bwt_id task)\<rparr> \<and>
      find (\<lambda>q. tq_runtimeEnvironmentId q = env_id (env c) \<and> tq_name q = tr_queue run)
        (taskQueues (db w)) = Some queue \<and>
      enabled c \<and> \<not> stopLands w \<and>
      att = newAttempt w task run (take 1 (attemptsDesc (qm_messageId message) (db w))) queue \<and>
      \<not> list_ex (\<lambda>b. tra_id b = tra_id att \<or> tra_friendlyId b = tra_friendlyId att)
          (taskRunAttempts (db w)) \<and>
      w3 = w\<lparr>marqs := Some (q\<lparr>mq_visible := rest\<rparr>),
             db := (db w)\<lparr>
               taskRuns := map (\<lambda>x. if tr_id x = qm_messageId message then run else x)
                             (taskRuns (db w)),
               taskRunAttempts := taskRunAttempts (db w) @ [att]\<rparr>\<rparr>"
  using assms
  unfolding prepareAttempt_def dequeueMessageInEnv_def taskRun_findUnique_def
    taskRun_update_lock_def taskQueue_findUnique_def taskRunAttempt_create_def
    ackAndResume_def nackMessage_def acknowledgeMessage_def
  by (auto simp: Let_def newAttempt_def afterFirstAwait_def stop_def
      split: option.splits list.splits sum.splits if_splits prod.splits)

lemma prepareAttempt_ExitD:
  assumes "prepareAttempt c w = Exit (r, c', w')"
  shows "c' = afterFirstAwait c w \<and> sent w' = sent w \<and> spans w' = spans w \<and> nextSpanId w' = nextSpanId w
       \<and> taskRunAttempts (db w') = taskRunAttempts (db w) \<and> throwing w' = throwing w"
  using assms
  unfolding prepareAttempt_def dequeueMessageInEnv_def taskRun_findUnique_def
    taskRun_update_lock_def taskQueue_findUnique_def taskRunAttempt_create_def
    ackAndResume_def nackMessage_def acknowledgeMessage_def setTimeout_def
  by (auto simp: Let_def split: option.splits list.splits sum.splits if_splits prod.splits)

lemma prepareAttempt_Exit_resolves:
  assumes "prepareAttempt c w = Exit (r, c', w')"
    and "\<forall>k. k \<noteq> Send \<longrightarrow> throwing w k = None"
    and "\<not> list_ex (\<lambda>b. tra_id b = newAttemptId w \<or> tra_friendlyId b = newFriendlyId w)
            (taskRunAttempts (db w))"
  shows "r = Resolved \<and>
     (timers w' = timers w @ [100] \<or> timers w' = timers w @ [1000] \<or>
      (\<not> enabled (afterFirstAwait c w) \<and> timers w' = timers w \<and>
         (\<exists>q' acts mid. marqs w' = Some q' \<and> mq_actions q' = acts @ [Nack mid None])))"
  using assms
  unfolding prepareAttempt_def dequeueMessageInEnv_def taskRun_findUnique_def
    taskRun_update_lock_def taskQueue_findUnique_def taskRunAttempt_create_def
    ackAndResume_def nackMessage_def acknowledgeMessage_def setTimeout_def
  by (auto simp: Let_def newAttempt_def split: option.splits list.splits sum.splits if_splits prod.splits)

lemma sendExecution_ok:
  "throwing w Send = None \<Longrightarrow>
   sendExecution message m run att c w = (Resolved, c, w\<lparr>sent := sent w @ [m], timers := timers w @ [100]\<rparr>)"
  by (simp add: sendExecution_def send_def setTimeout_def)

lemma unlockAndDelete_after_create:
  assumes "throwing w Transaction = None"
    and "list_ex (\<lambda>r. tr_id r = rid) runs"
    and "\<not> list_ex (\<lambda>b. tra_id b = tra_id att) atts"
    and "db w = s\<lparr>taskRuns := runs, taskRunAttempts := atts @ [att]\<rparr>"
  shows "unlockAndDelete rid (tra_id att) w =
     Inr (w\<lparr>db := s\<lparr>
        taskRuns := map (\<lambda>r. if tr_id r = rid then r\<lparr>tr_lockedAt := None, tr_lockedById := None\<rparr> else r) runs,
        taskRunAttempts := atts\<rparr>\<rparr>)"
proof -
  have "filter (\<lambda>a. tra_id a \<noteq> tra_id att) atts = atts"
    using assms(3) by (induction atts) (auto simp: list_ex_iff)
  then show ?thesis
    using assms by (simp add: unlockAndDelete_def list_ex_iff)
qed

lemma find_Some_list_ex: "find P xs = Some x \<Longrightarrow> list_ex P xs"
  by (induction xs) (auto split: if_splits)

lemma list_ex_map_lock:
  "list_ex (\<lambda>r. tr_id r = rid) xs \<Longrightarrow> tr_id run = rid \<Longrightarrow>
   list_ex (\<lambda>r. tr_id r = rid) (map (\<lambda>x. if tr_id x = rid then run else x) xs)"
  by (induction xs) auto


lemma find_map_lock:
  "find (\<lambda>r. tr_id r = rid) xs = Some existing \<Longrightarrow> tr_id run = rid \<Longrightarrow>
   find (\<lambda>r. tr_id r = rid) (map (\<lambda>x. if tr_id x = rid then run else x) xs) = Some run"
  by (induction xs) (auto split: if_splits)

lemma doWorkInternal_frame:
  assumes "doWorkInternal c w = (r, c', w')"
  shows "(c' = afterFirstAwait c w
          \<or> (c' = c\<lparr>endSpanInNextIteration := True\<rparr> \<and> throwing w Send \<noteq> None))
     \<and> (spans w' = spans w
          \<or> (\<exists>s m. currentSpan c = Some s \<and> spans w' = spans w @ [RecordException s m]))
     \<and> nextSpanId w' = nextSpanId w"
proof (cases "prepareAttempt c w")
  case (Exit x)
  then have "prepareAttempt c w = Exit (r, c', w')"
    using assms by (simp add: doWorkInternal_def)
  from prepareAttempt_ExitD [OF this] show ?thesis by simp
next
  case (Dispatch message bw task run queue att w3)
  from prepareAttempt_DispatchD [OF Dispatch] obtain q rest where
    ns: "\<not> stopLands w" and
    w3: "w3 = w\<lparr>marqs := Some (q\<lparr>mq_visible := rest\<rparr>),
             db := (db w)\<lparr>
               taskRuns := map (\<lambda>x. if tr_id x = qm_messageId message then run else x)
                             (taskRuns (db w)),
               taskRunAttempts := taskRunAttempts (db w) @ [att]\<rparr>\<rparr>"
    by blast
  have f: "throwing w3 = throwing w" "spans w3 = spans w" "nextSpanId w3 = nextSpanId w"
    by (simp_all add: w3)
  have afa: "afterFirstAwait c w = c"
    using ns by (simp add: afterFirstAwait_def)
  show ?thesis
    using assms f
    unfolding doWorkInternal_def afa Dispatch sendExecution_def send_def unlockAndDelete_def
      nackMessage_def setTimeout_def spanLog_def
    by (auto simp: Let_def split: option.splits sum.splits if_splits)
qed

text \<open>
  The world a caught transport failure leaves behind, written out: the lock of the run and
  the inserted attempt are undone, the exception is on the span, the message is nacked and
  the timer is set.
\<close>

lemma send_failure_outcome:
  assumes prep: "prepareAttempt c w = Dispatch message bw task run queue att w3"
    and snd: "throwing w Send = Some e"
    and tx: "throwing w Transaction = None"
    and nk: "throwing w NackCall = None"
  shows "\<exists>q rest.
     marqs w = Some q \<and> mq_visible q = message # rest
     \<and> tr_id run = qm_messageId message
     \<and> list_ex (\<lambda>r. tr_id r = qm_messageId message) (taskRuns (db w))
     \<and> \<not> list_ex (\<lambda>a. tra_id a = tra_id att) (taskRunAttempts (db w))
     \<and> doWorkInternal c w =
         (Resolved, c\<lparr>endSpanInNextIteration := True\<rparr>,
          w\<lparr>spans := spans w @ (case currentSpan c of
                                   None \<Rightarrow> []
                                 | Some s \<Rightarrow> [RecordException s (thrownMessage e)]),
            db := (db w)\<lparr>taskRuns :=
                    map (\<lambda>r. if tr_id r = qm_messageId message
                              then r\<lparr>tr_lockedAt := None, tr_lockedById := None\<rparr> else r)
                      (map (\<lambda>x. if tr_id x = qm_messageId message then run else x)
                         (taskRuns (db w)))\<rparr>,
            marqs := Some (q\<lparr>mq_visible := rest,
                              mq_actions := mq_actions q @ [Nack (qm_messageId message) None]\<rparr>),
            timers := timers w @ [100]\<rparr>)"
proof -
  from prepareAttempt_DispatchD [OF prep] obtain q rest existing where
    q: "marqs w = Some q" "mq_visible q = message # rest"
    and ex: "find (\<lambda>r. tr_id r = qm_messageId message) (taskRuns (db w)) = Some existing"
    and run: "run = existing\<lparr>tr_lockedAt := Some (now w), tr_lockedById := Some (bwt_id task)\<rparr>"
    and fresh: "\<not> list_ex (\<lambda>b. tra_id b = tra_id att \<or> tra_friendlyId b = tra_friendlyId att)
          (taskRunAttempts (db w))"
    and w3: "w3 = w\<lparr>marqs := Some (q\<lparr>mq_visible := rest\<rparr>),
             db := (db w)\<lparr>
               taskRuns := map (\<lambda>x. if tr_id x = qm_messageId message then run else x)
                             (taskRuns (db w)),
               taskRunAttempts := taskRunAttempts (db w) @ [att]\<rparr>\<rparr>"
    by blast
  have rid: "tr_id existing = qm_messageId message"
    using ex by (auto simp: find_Some_iff)
  then have rid': "tr_id run = qm_messageId message" by (simp add: run)
  have fresh': "\<not> list_ex (\<lambda>b. tra_id b = tra_id att) (taskRunAttempts (db w))"
    using fresh by (auto simp: list_ex_iff)
  have ex0: "list_ex (\<lambda>r. tr_id r = qm_messageId message) (taskRuns (db w))"
    using ex by (rule find_Some_list_ex)
  define runs3 where
    "runs3 = map (\<lambda>x. if tr_id x = qm_messageId message then run else x) (taskRuns (db w))"
  have ex3: "list_ex (\<lambda>r. tr_id r = qm_messageId message) runs3"
    unfolding runs3_def using ex0 rid' by (rule list_ex_map_lock)
  define w4 where "w4 = (case currentSpan c of None \<Rightarrow> w3
                    | Some s \<Rightarrow> spanLog [RecordException s (thrownMessage e)] w3)"
  have w4db: "db w4 = (db w)\<lparr>taskRuns := runs3, taskRunAttempts := taskRunAttempts (db w) @ [att]\<rparr>"
    by (simp add: w4_def w3 runs3_def spanLog_def split: option.splits)
  have w4tx: "throwing w4 Transaction = None" "throwing w4 NackCall = None"
    using tx nk by (simp_all add: w4_def w3 spanLog_def split: option.splits)
  note ud = unlockAndDelete_after_create [OF w4tx(1) ex3 fresh' w4db, unfolded rid' [symmetric]]
  have snd3: "throwing w3 Send = Some e" using snd by (simp add: w3)
  have "doWorkInternal c w =
     (Resolved, c\<lparr>endSpanInNextIteration := True\<rparr>,
      setTimeout 100
        (w4\<lparr>db := (db w)\<lparr>taskRuns :=
                 map (\<lambda>r. if tr_id r = qm_messageId message
                           then r\<lparr>tr_lockedAt := None, tr_lockedById := None\<rparr> else r) runs3,
               taskRunAttempts := taskRunAttempts (db w)\<rparr>,
            marqs := Some (q\<lparr>mq_visible := rest,
                              mq_actions := mq_actions q @ [Nack (qm_messageId message) None]\<rparr>)\<rparr>))"
    using snd3 ud w4tx(2) rid'
    apply (simp add: doWorkInternal_def prep sendExecution_def send_def w4_def [symmetric])
    apply (simp add: nackMessage_def w4_def w3 spanLog_def split: option.splits)
    done
  then have "doWorkInternal c w =
         (Resolved, c\<lparr>endSpanInNextIteration := True\<rparr>,
          w\<lparr>spans := spans w @ (case currentSpan c of
                                   None \<Rightarrow> []
                                 | Some s \<Rightarrow> [RecordException s (thrownMessage e)]),
            db := (db w)\<lparr>taskRuns :=
                    map (\<lambda>r. if tr_id r = qm_messageId message
                              then r\<lparr>tr_lockedAt := None, tr_lockedById := None\<rparr> else r)
                      (map (\<lambda>x. if tr_id x = qm_messageId message then run else x)
                         (taskRuns (db w)))\<rparr>,
            marqs := Some (q\<lparr>mq_visible := rest,
                              mq_actions := mq_actions q @ [Nack (qm_messageId message) None]\<rparr>),
            timers := timers w @ [100]\<rparr>)"
    by (simp add: setTimeout_def w4_def w3 runs3_def spanLog_def split: option.splits)
  with q rid' ex0 fresh' show ?thesis by blast
qed



lemma map_of_obj_set: "map_of (obj_set k v m) = (map_of m)(k \<mapsto> v)"
  by (induction m) (auto simp: fun_eq_iff)

lemma fst_obj_set_old: "k \<in> fst ` set m \<Longrightarrow> map fst (obj_set k v m) = map fst m"
  by (induction m) force+

lemma fst_obj_set_new: "k \<notin> fst ` set m \<Longrightarrow> map fst (obj_set k v m) = map fst m @ [k]"
  by (induction m) auto

lemma fst_obj_set: "map fst (obj_set k v m) = (if k \<in> fst ` set m then map fst m else map fst m @ [k])"
  using fst_obj_set_old [of k m v] fst_obj_set_new [of k m v] by simp

lemma dispatch_resolves:
  assumes prep: "prepareAttempt c w = Dispatch message bw task run queue att w3"
    and tx: "throwing w Transaction = None"
    and nk: "throwing w NackCall = None"
  shows "\<exists>c' w'. doWorkInternal c w = (Resolved, c', w') \<and> timers w' = timers w @ [100]"
proof (cases "throwing w Send")
  case None
  from prepareAttempt_DispatchD [OF prep] obtain q rest where
    w3: "w3 = w\<lparr>marqs := Some (q\<lparr>mq_visible := rest\<rparr>),
             db := (db w)\<lparr>
               taskRuns := map (\<lambda>x. if tr_id x = qm_messageId message then run else x)
                             (taskRuns (db w)),
               taskRunAttempts := taskRunAttempts (db w) @ [att]\<rparr>\<rparr>"
    by blast
  have "throwing w3 Send = None" "timers w3 = timers w" using None by (simp_all add: w3)
  then show ?thesis
    by (simp add: doWorkInternal_def prep sendExecution_ok)
next
  case (Some e)
  from send_failure_outcome [OF prep Some tx nk] show ?thesis by auto
qed

lemma rollover_frame:
  "throwing (snd (rollover c w)) = throwing w
   \<and> db (snd (rollover c w)) = db w
   \<and> newAttemptId (snd (rollover c w)) = newAttemptId w
   \<and> newFriendlyId (snd (rollover c w)) = newFriendlyId w
   \<and> timers (snd (rollover c w)) = timers w
   \<and> marqs (snd (rollover c w)) = marqs w
   \<and> stopLands (snd (rollover c w)) = stopLands w
   \<and> enabled (fst (rollover c w)) = enabled c"
  by (simp add: rollover_def startSpan_def spanLog_def Let_def split: option.splits)

lemma doWorkInternal_resolves:
  assumes nothrow: "\<forall>k. k \<noteq> Send \<longrightarrow> throwing w k = None"
    and fresh: "\<not> list_ex (\<lambda>b. tra_id b = newAttemptId w \<or> tra_friendlyId b = newFriendlyId w)
            (taskRunAttempts (db w))"
  shows "\<exists>c' w'. doWorkInternal c w = (Resolved, c', w') \<and>
     (timers w' = timers w @ [100] \<or> timers w' = timers w @ [1000] \<or>
      (\<not> enabled (afterFirstAwait c w) \<and> timers w' = timers w \<and>
         (\<exists>q' acts mid. marqs w' = Some q' \<and> mq_actions q' = acts @ [Nack mid None])))"
proof (cases "prepareAttempt c w")
  case (Exit x)
  obtain r c' w' where x: "x = (r, c', w')" by (cases x) auto
  from prepareAttempt_Exit_resolves [OF Exit [unfolded x] nothrow fresh]
  show ?thesis by (simp add: doWorkInternal_def Exit x)
next
  case (Dispatch message bw task run queue att w3)
  have "throwing w Transaction = None" "throwing w NackCall = None"
    using nothrow by simp_all
  from dispatch_resolves [OF Dispatch this] show ?thesis by blast
qed

lemma doWork_resolves:
  assumes nothrow: "\<forall>k. k \<noteq> Send \<longrightarrow> throwing w k = None"
    and fresh: "\<not> list_ex (\<lambda>b. tra_id b = newAttemptId w \<or> tra_friendlyId b = newFriendlyId w)
            (taskRunAttempts (db w))"
    and en: "enabled c"
    and opened: "perTraceCountdown c = Some 0 \<or> lastNewTrace c \<noteq> None"
  shows "\<exists>c' w'. doWork c w = (Resolved, c', w') \<and>
     (timers w' = timers w @ [100] \<or> timers w' = timers w @ [1000] \<or>
      (stopLands w \<and> timers w' = timers w \<and>
         (\<exists>q' acts mid. marqs w' = Some q' \<and> mq_actions q' = acts @ [Nack mid None])))"
proof -
  have "\<exists>expired. traceExpired c w = Inr expired"
    using opened by (cases "lastNewTrace c") (auto simp: traceExpired_def)
  then obtain expired where ex: "traceExpired c w = Inr expired" ..
  define cw where "cw = (if expired then rollover c w else (c, w))"
  have f: "throwing (snd cw) = throwing w" "db (snd cw) = db w"
    "newAttemptId (snd cw) = newAttemptId w" "newFriendlyId (snd cw) = newFriendlyId w"
    "timers (snd cw) = timers w" "enabled (fst cw)" "stopLands (snd cw) = stopLands w"
    using rollover_frame [of c w] en by (simp_all add: cw_def)
  have "\<exists>c' w'. doWorkInternal (fst cw) (snd cw) = (Resolved, c', w') \<and>
     (timers w' = timers (snd cw) @ [100] \<or> timers w' = timers (snd cw) @ [1000] \<or>
      (\<not> enabled (afterFirstAwait (fst cw) (snd cw)) \<and> timers w' = timers (snd cw) \<and>
         (\<exists>q' acts mid. marqs w' = Some q' \<and> mq_actions q' = acts @ [Nack mid None])))"
    by (rule doWorkInternal_resolves) (use nothrow fresh f in simp_all)
  moreover have "\<not> enabled (afterFirstAwait (fst cw) (snd cw)) \<longleftrightarrow> stopLands w"
    using f by (simp add: afterFirstAwait_def stop_def)
  ultimately obtain c2 w2 where
    r: "doWorkInternal (fst cw) (snd cw) = (Resolved, c2, w2)"
    "timers w2 = timers w @ [100] \<or> timers w2 = timers w @ [1000] \<or>
      (stopLands w \<and> timers w2 = timers w \<and>
         (\<exists>q' acts mid. marqs w2 = Some q' \<and> mq_actions q' = acts @ [Nack mid None]))"
    using f by auto
  show ?thesis
    using en ex r by (simp add: doWork_def cw_def [symmetric] Let_def)
qed

lemma dequeue_throws:
  assumes "marqs w = Some q" "throwing w Dequeue = Some e"
  shows "doWorkInternal c w = (Rejected e, afterFirstAwait c w, w)"
  using assms
  by (simp add: doWorkInternal_def prepareAttempt_def dequeueMessageInEnv_def Let_def)

lemma doWork_dequeue_throws:
  assumes q: "marqs w = Some q" "throwing w Dequeue = Some e"
    and en: "enabled c"
    and opened: "perTraceCountdown c = Some 0 \<or> lastNewTrace c \<noteq> None"
  shows "fst (doWork c w) = Rejected e \<and> timers (snd (snd (doWork c w))) = timers w"
proof -
  have "\<exists>expired. traceExpired c w = Inr expired"
    using opened by (cases "lastNewTrace c") (auto simp: traceExpired_def)
  then obtain expired where ex: "traceExpired c w = Inr expired" ..
  define cw where "cw = (if expired then rollover c w else (c, w))"
  have f: "throwing (snd cw) = throwing w" "marqs (snd cw) = marqs w" "timers (snd cw) = timers w"
    using rollover_frame [of c w] by (simp_all add: cw_def)
  have "doWorkInternal (fst cw) (snd cw)
      = (Rejected e, afterFirstAwait (fst cw) (snd cw), snd cw)"
    by (rule dequeue_throws [of _ q]) (use q f in simp_all)
  then show ?thesis
    using en ex f by (simp add: doWork_def cw_def [symmetric] Let_def)
qed


subsection \<open>Attempt numbers\<close>

lemma set_insertDesc: "set (insertDesc a bs) = insert a (set bs)"
  by (induction bs) auto

lemma insertDesc_hd:
  "\<forall>b \<in> set bs. tra_number b \<le> tra_number (hd bs) \<Longrightarrow>
   \<forall>b \<in> set (insertDesc a bs). tra_number b \<le> tra_number (hd (insertDesc a bs))"
  by (cases bs) (auto simp: set_insertDesc)

lemma foldr_insertDesc:
  "set (foldr insertDesc xs []) = set xs
   \<and> (\<forall>b \<in> set (foldr insertDesc xs []). tra_number b \<le> tra_number (hd (foldr insertDesc xs [])))"
proof (induction xs)
  case Nil
  show ?case by simp
next
  case (Cons x xs)
  then show ?case
    using insertDesc_hd [of "foldr insertDesc xs []" x] by (simp add: set_insertDesc)
qed

lemma take1_attemptsDesc:
  "take (Suc 0) (attemptsDesc rid s) =
     (case filter (\<lambda>a. tra_taskRunId a = rid) (taskRunAttempts s) of
        [] \<Rightarrow> []
      | x # xs \<Rightarrow> [hd (attemptsDesc rid s)])"
proof (cases "filter (\<lambda>a. tra_taskRunId a = rid) (taskRunAttempts s)")
  case Nil
  then show ?thesis by (simp add: attemptsDesc_def)
next
  case (Cons x xs)
  have "set (attemptsDesc rid s) = set (x # xs)"
    using foldr_insertDesc [of "x # xs"] by (simp add: attemptsDesc_def Cons)
  then have "attemptsDesc rid s \<noteq> []" by auto
  then show ?thesis by (cases "attemptsDesc rid s") (simp_all add: Cons)
qed

lemma hd_attemptsDesc_number:
  assumes "filter (\<lambda>a. tra_taskRunId a = rid) (taskRunAttempts s) = x # xs"
  shows "tra_number (hd (attemptsDesc rid s)) = Max (set (attemptNumbers rid s))"
proof -
  let ?ds = "attemptsDesc rid s"
  have set_eq: "set ?ds = set (x # xs)"
    and ge: "\<forall>b \<in> set ?ds. tra_number b \<le> tra_number (hd ?ds)"
    using foldr_insertDesc [of "x # xs"] by (simp_all add: attemptsDesc_def assms)
  have ne: "?ds \<noteq> []" using set_eq by auto
  then have mem: "hd ?ds \<in> set (x # xs)" using set_eq hd_in_set by blast
  have nums: "set (attemptNumbers rid s) = tra_number ` set (x # xs)"
    by (simp add: attemptNumbers_def assms)
  show ?thesis
    unfolding nums
  proof (rule Max_eqI [symmetric])
    show "finite (tra_number ` set (x # xs))" by simp
    show "\<And>y. y \<in> tra_number ` set (x # xs) \<Longrightarrow> y \<le> tra_number (hd ?ds)"
      using ge set_eq by auto
    show "tra_number (hd ?ds) \<in> tra_number ` set (x # xs)" using mem by blast
  qed
qed

lemma dispatch_attempt_number:
  assumes prep: "prepareAttempt c w = Dispatch message bw task run queue att w3"
  shows "tra_taskRunId att = qm_messageId message
     \<and> taskRunAttempts (db w3) = taskRunAttempts (db w) @ [att]
     \<and> tra_number att =
         (case attemptNumbers (qm_messageId message) (db w) of
            [] \<Rightarrow> 1
          | n # ns \<Rightarrow> Max (set (n # ns)) + 1)"
proof -
  from prepareAttempt_DispatchD [OF prep] obtain q rest existing where
    ex: "find (\<lambda>r. tr_id r = qm_messageId message) (taskRuns (db w)) = Some existing"
    and run: "run = existing\<lparr>tr_lockedAt := Some (now w), tr_lockedById := Some (bwt_id task)\<rparr>"
    and att: "att = newAttempt w task run (take 1 (attemptsDesc (qm_messageId message) (db w))) queue"
    and w3: "w3 = w\<lparr>marqs := Some (q\<lparr>mq_visible := rest\<rparr>),
             db := (db w)\<lparr>
               taskRuns := map (\<lambda>x. if tr_id x = qm_messageId message then run else x)
                             (taskRuns (db w)),
               taskRunAttempts := taskRunAttempts (db w) @ [att]\<rparr>\<rparr>"
    by blast
  have rid: "tr_id run = qm_messageId message"
    using ex by (auto simp: find_Some_iff run)
  have a: "tra_taskRunId att = qm_messageId message" by (simp add: att newAttempt_def rid)
  have b: "taskRunAttempts (db w3) = taskRunAttempts (db w) @ [att]" by (simp add: w3)
  have c: "tra_number att =
         (case attemptNumbers (qm_messageId message) (db w) of
            [] \<Rightarrow> 1
          | n # ns \<Rightarrow> Max (set (n # ns)) + 1)"
  proof (cases "filter (\<lambda>a. tra_taskRunId a = qm_messageId message) (taskRunAttempts (db w))")
    case Nil
    then show ?thesis
      by (simp add: att newAttempt_def take1_attemptsDesc attemptNumbers_def)
  next
    case (Cons x xs)
    from hd_attemptsDesc_number [OF Cons] show ?thesis
      by (simp add: att newAttempt_def take1_attemptsDesc Cons attemptNumbers_def)
  qed
  from a b c show ?thesis by simp
qed

lemma doWorkInternal_attempts:
  assumes "doWorkInternal c w = (r, c', w')"
  shows "taskRunAttempts (db w') = taskRunAttempts (db w)
     \<or> (\<exists>message bw task run queue att w3.
           prepareAttempt c w = Dispatch message bw task run queue att w3
           \<and> taskRunAttempts (db w') = taskRunAttempts (db w) @ [att])"
proof (cases "prepareAttempt c w")
  case (Exit x)
  then have "prepareAttempt c w = Exit (r, c', w')"
    using assms by (simp add: doWorkInternal_def)
  from prepareAttempt_ExitD [OF this] show ?thesis by simp
next
  case (Dispatch message bw task run queue att w3)
  from prepareAttempt_DispatchD [OF Dispatch] obtain
    fresh: "\<not> list_ex (\<lambda>b. tra_id b = tra_id att \<or> tra_friendlyId b = tra_friendlyId att)
          (taskRunAttempts (db w))"
    by blast
  have w3: "taskRunAttempts (db w3) = taskRunAttempts (db w) @ [att]"
    using dispatch_attempt_number [OF Dispatch] by simp
  have flt: "filter (\<lambda>a. tra_id a \<noteq> tra_id att) (taskRunAttempts (db w)) = taskRunAttempts (db w)"
    using fresh by (induction "taskRunAttempts (db w)") (auto simp: list_ex_iff filter_id_conv)
  have "taskRunAttempts (db w') = taskRunAttempts (db w)
      \<or> taskRunAttempts (db w') = taskRunAttempts (db w) @ [att]"
    using assms w3 flt
    unfolding doWorkInternal_def Dispatch sendExecution_def send_def unlockAndDelete_def
      nackMessage_def setTimeout_def spanLog_def
    by (auto simp: Let_def split: option.splits sum.splits if_splits)
  then show ?thesis using Dispatch by blast
qed

lemma upto_snoc: "[1..int n] @ [int n + 1] = [1..int (Suc n)]"
proof -
  have "[1..int n + 1] = [1..int n + 1 - 1] @ [int n + 1]" by (rule upto_rec2) simp
  then have "[1..int n + 1] = [1..int n] @ [int n + 1]" by simp
  moreover have "int (Suc n) = int n + 1" by simp
  ultimately show ?thesis by (simp only:)
qed

lemma Max_upto: "0 < n \<Longrightarrow> Max (set [1..int n]) = int n"
  by (rule Max_eqI) auto

lemma numbered_append:
  assumes inv: "attemptNumbers rid s = [1..int (length (attemptNumbers rid s))]"
    and new: "tra_taskRunId att = rid'"
      "tra_number att = (case attemptNumbers rid' s of [] \<Rightarrow> 1 | n # ns \<Rightarrow> Max (set (n # ns)) + 1)"
    and inv': "attemptNumbers rid' s = [1..int (length (attemptNumbers rid' s))]"
    and s': "taskRunAttempts s' = taskRunAttempts s @ [att]"
  shows "attemptNumbers rid s' = [1..int (length (attemptNumbers rid s'))]"
proof (cases "rid = rid'")
  case False
  then have "attemptNumbers rid s' = attemptNumbers rid s"
    using new(1) by (auto simp: attemptNumbers_def s')
  then show ?thesis using inv by simp
next
  case True
  define n where "n = length (attemptNumbers rid s)"
  have nums: "attemptNumbers rid s = [1..int n]" using inv by (simp add: n_def)
  have num: "tra_number att = int n + 1"
  proof (cases n)
    case 0
    then show ?thesis using new(2) nums True by simp
  next
    case (Suc m)
    then have "attemptNumbers rid s \<noteq> []" using n_def by auto
    then obtain k ks where ks: "attemptNumbers rid s = k # ks" by (cases "attemptNumbers rid s") auto
    have "Max (set (k # ks)) = int n"
      using Max_upto [of n] Suc nums ks by simp
    then show ?thesis using new(2) True ks by simp
  qed
  have app: "attemptNumbers rid s' = attemptNumbers rid s @ [tra_number att]"
    using new(1) True by (simp add: attemptNumbers_def s')
  then have len: "length (attemptNumbers rid s') = Suc n" by (simp add: n_def)
  have "attemptNumbers rid s' = [1..int n] @ [int n + 1]"
    using app nums num by simp
  also have "\<dots> = [1..int (Suc n)]" by (rule upto_snoc)
  finally show ?thesis unfolding len .
qed

lemma doWorkInternal_numbered:
  assumes inv: "\<forall>rid. attemptNumbers rid (db w) = [1..int (length (attemptNumbers rid (db w)))]"
    and run: "doWorkInternal c w = (r, c', w')"
  shows "attemptNumbers rid (db w') = [1..int (length (attemptNumbers rid (db w')))]"
proof -
  from doWorkInternal_attempts [OF run] show ?thesis
  proof
    assume "taskRunAttempts (db w') = taskRunAttempts (db w)"
    then have "attemptNumbers rid (db w') = attemptNumbers rid (db w)"
      by (simp add: attemptNumbers_def)
    then show ?thesis using inv by simp
  next
    assume "\<exists>message bw task run queue att w3.
           prepareAttempt c w = Dispatch message bw task run queue att w3
           \<and> taskRunAttempts (db w') = taskRunAttempts (db w) @ [att]"
    then obtain message bw task run queue att w3 where
      prep: "prepareAttempt c w = Dispatch message bw task run queue att w3"
      and s': "taskRunAttempts (db w') = taskRunAttempts (db w) @ [att]"
      by blast
    from dispatch_attempt_number [OF prep] have
      new: "tra_taskRunId att = qm_messageId message"
        "tra_number att =
         (case attemptNumbers (qm_messageId message) (db w) of
            [] \<Rightarrow> 1
          | n # ns \<Rightarrow> Max (set (n # ns)) + 1)"
      by simp_all
    show ?thesis
      by (rule numbered_append [OF _ new _ s']) (use inv in simp_all)
  qed
qed

lemma doWork_numbered:
  assumes inv: "\<forall>rid. attemptNumbers rid (db w) = [1..int (length (attemptNumbers rid (db w)))]"
  shows "attemptNumbers rid (db (snd (snd (doWork c w))))
     = [1..int (length (attemptNumbers rid (db (snd (snd (doWork c w))))))]"
proof (cases "enabled c")
  case False
  then show ?thesis using inv by (simp add: doWork_def)
next
  case True
  show ?thesis
  proof (cases "traceExpired c w")
    case (Inl e)
    then show ?thesis using inv True by (simp add: doWork_def)
  next
    case (Inr expired)
    define cw where "cw = (if expired then rollover c w else (c, w))"
    have dbcw: "db (snd cw) = db w" using rollover_frame [of c w] by (simp add: cw_def)
    obtain r0 c2 w2 where dwi: "doWorkInternal (fst cw) (snd cw) = (r0, c2, w2)"
      by (cases "doWorkInternal (fst cw) (snd cw)") auto
    have "attemptNumbers rid (db w2) = [1..int (length (attemptNumbers rid (db w2)))]"
      by (rule doWorkInternal_numbered [OF _ dwi]) (use inv dbcw in simp)
    moreover have "snd (snd (doWork c w)) = w2"
      using True Inr dwi by (simp add: doWork_def cw_def [symmetric] Let_def split: outcome.splits)
    ultimately show ?thesis by simp
  qed
qed

lemma nackMessage_db: "nackMessage mid t w = Inr w' \<Longrightarrow> db w' = db w"
  by (auto simp: nackMessage_def split: option.splits)

lemma acknowledgeMessage_db: "acknowledgeMessage mid w = Inr w' \<Longrightarrow> db w' = db w"
  by (auto simp: acknowledgeMessage_def split: option.splits)

lemma recordEvent_world:
  "recordEvent m opts w = Inr (ev, w') \<Longrightarrow> w' = w\<lparr>eventBatch := eventBatch w @ [ev]\<rparr>"
  by (auto simp: recordEvent_def split: sum.splits)

lemma scheduleRetry_db:
  assumes "scheduleRetry retry execution a run task c w = (r, c', w')"
  shows "db w' = db w"
proof (cases "generateMetadataAttributesForNextAttempt w execution")
  case (Inl e)
  then show ?thesis using assms by (simp add: scheduleRetry_def)
next
  case (Inr md)
  let ?rc = "(case bwt_retryConfig task of
               None \<Rightarrow> None
             | Some stored \<Rightarrow> Some (mergeRetryOptions (defaultRetryOptions w) stored))"
  let ?re = "recordEvent (retryMessage ?rc (ea_number (ex_attempt execution)))
               (retryEventOptions c a run ?rc (retry_timestamp retry) md) w"
  show ?thesis
  proof (cases ?re)
    case (Inl e)
    then show ?thesis using assms Inr by (simp add: scheduleRetry_def Let_def)
  next
    case (Inr y)
    obtain ev w1 where y: "y = (ev, w1)" by (cases y) auto
    have w1: "db w1 = db w" using recordEvent_world [OF Inr [unfolded y]] by simp
    show ?thesis
    proof (cases "nackMessage (tra_taskRunId a) (Some (retry_timestamp retry)) w1")
      case (Inl e)
      then show ?thesis
        using assms \<open>generateMetadataAttributesForNextAttempt w execution = Inr md\<close> Inr y w1
        by (simp add: scheduleRetry_def Let_def)
    next
      case (Inr w2)
      then show ?thesis
        using assms \<open>generateMetadataAttributesForNextAttempt w execution = Inr md\<close>
          \<open>?re = Inr y\<close> y w1 nackMessage_db [OF Inr]
        by (simp add: scheduleRetry_def Let_def)
    qed
  qed
qed

lemma taskRunAttempt_update_numbers:
  assumes "taskRunAttempt_update fid change w = Inr (x, w1)"
    and "\<And>a. tra_number (change a) = tra_number a \<and> tra_taskRunId (change a) = tra_taskRunId a"
  shows "attemptNumbers rid (db w1) = attemptNumbers rid (db w)"
proof -
  have "db w1 = (db w)\<lparr>taskRunAttempts :=
          map (\<lambda>x. if tra_friendlyId x = fid then change x else x) (taskRunAttempts (db w))\<rparr>"
    using assms(1)
    by (auto simp: taskRunAttempt_update_def split: option.splits)
  moreover have "map tra_number (filter (\<lambda>a. tra_taskRunId a = rid)
        (map (\<lambda>x. if tra_friendlyId x = fid then change x else x) xs))
      = map tra_number (filter (\<lambda>a. tra_taskRunId a = rid) xs)" for xs
    using assms(2) by (induction xs) auto
  ultimately show ?thesis by (simp add: attemptNumbers_def)
qed

lemma taskRunCompleted_db:
  assumes "taskRunCompleted workerId completion execution c w = (r, c', w')"
  shows "attemptNumbers rid (db w') = attemptNumbers rid (db w)"
proof (cases "completionUpdate completion w")
  case (Inl e)
  then show ?thesis using assms by (simp add: taskRunCompleted_def)
next
  case (Inr y)
  obtain x w1 where y: "y = (x, w1)" by (cases y) auto
  have n1: "attemptNumbers rid (db w1) = attemptNumbers rid (db w)"
    using Inr [unfolded y]
    by (cases completion)
       (auto simp: completionUpdate_def intro!: taskRunAttempt_update_numbers)
  obtain a run task where x: "x = (a, run, task)" by (cases x) auto
  define c1 where "c1 = (if tra_status a = COMPLETED
                    then c\<lparr>taskSuccesses := taskSuccesses c + 1\<rparr>
                    else c\<lparr>taskFailures := taskFailures c + 1\<rparr>)"
  have ack: "db w' = db w1"
    if "(case acknowledgeMessage (tra_taskRunId a) w1 of
                    Inl e \<Rightarrow> (Rejected e, k, w1)
                  | Inr w2 \<Rightarrow> (Resolved, k, w2)) = (r, c', w')" for k
    using that acknowledgeMessage_db [of "tra_taskRunId a" w1]
    by (cases "acknowledgeMessage (tra_taskRunId a) w1") auto
  have "db w' = db w1"
  proof (cases completion)
    case (ResultOk cid out outType)
    then show ?thesis
      using assms Inr y x by (simp add: taskRunCompleted_def Let_def) (erule ack)
  next
    case (ResultFailed cid err retry)
    show ?thesis
    proof (cases retry)
      case None
      then show ?thesis
        using assms Inr y x ResultFailed
        by (simp add: taskRunCompleted_def Let_def) (erule ack)
    next
      case (Some rt)
      then have "scheduleRetry rt execution a run task c1 w1 = (r, c', w')"
        using assms Inr y x ResultFailed by (simp add: taskRunCompleted_def c1_def Let_def)
      then show ?thesis by (rule scheduleRetry_db)
    qed
  qed
  then show ?thesis using n1 by simp
qed

subsection \<open>Rows behind a dispatch\<close>

lemma select_mem:
  "selectBackgroundWorker c r = Some bw \<Longrightarrow> bw \<in> snd ` set (backgroundWorkers c)"
  by (auto simp: selectBackgroundWorker_def dest: latest_some(1) map_of_SomeD
      split: option.splits if_splits intro: rev_image_eqI)

lemma find_Some_mem: "find P xs = Some x \<Longrightarrow> x \<in> set xs"
  by (induction xs) (auto split: if_splits)

lemma lock_map_mem:
  "find (\<lambda>r. tr_id r = rid) xs = Some existing \<Longrightarrow>
   run \<in> set (map (\<lambda>x. if tr_id x = rid then run else x) xs)"
  by (induction xs) (auto split: if_splits)

subsection \<open>The scenarios, evaluated\<close>

lemma scn_registered_running: "fst (snd scn_registered) = scn_running"
  by (simp add: scn_defs step_defs Let_def)

lemma scn_running_prepare:
  "\<exists>run att w3.
     prepareAttempt scn_running scn_world
       = Dispatch scn_message scn_w2 (scn_task ''ct_2'' ''cw_2'') run scn_queue att w3
     \<and> tr_lockedToVersionId run = None"
  by (simp add: scn_defs step_defs Let_def)


lemma scn_world_dispatch:
  "doWorkInternal scn_running scn_world = (Resolved, scn_running, scn_dispatched)"
  by (simp add: scn_defs step_defs Let_def executeRunsMessage_def buildExecution_def)

lemma scn_redelivered_prepare:
  "\<exists>run att w3.
     prepareAttempt scn_running scn_redelivered
       = Dispatch scn_message scn_w2 (scn_task ''ct_2'' ''cw_2'') run scn_queue att w3
     \<and> tra_number att = 2"
  by (simp add: scn_defs step_defs Let_def)

lemma scn_stopping_doWork:
  "(case doWork scn_running scn_stopping of
      (r, c', w') \<Rightarrow>
        r = Resolved \<and> \<not> enabled c' \<and> timers w' = [] \<and> sent w' = []
        \<and> taskRunAttempts (db w') = []
        \<and> map_option mq_actions (marqs w') = Some [Nack ''cr_1'' None])"
  by (simp add: scn_defs step_defs Let_def)



lemmas completion_defs = taskRunCompleted_def completionUpdate_def taskRunAttempt_update_def
  scheduleRetry_def recordEvent_def buildEvent_def nackMessage_def acknowledgeMessage_def
  generateMetadataAttributesForNextAttempt_def retryEventOptions_def retryMessage_def
  mergeRetryOptions_def orElse_def showInt_def extractContextFromCarrier_def
  parseTraceparent_def stripAttributePrefix_def startsWith_def spread_def numAttr_def
  boolAttr_def optAttr_def buildExecution_def

section \<open>The claims\<close>

text \<open>
  Claim C3 (the version ordering of \<open>latest()\<close> is numeric on the two dotted segments:
  with \<^verbatim>\<open>20240101.2\<close> and \<^verbatim>\<open>20240101.10\<close> registered it returns
  \<^verbatim>\<open>20240101.10\<close>). The code compares the version strings as strings: with exactly
  these two versions registered, in either order of registration,
  \<open>getLatestBackgroundWorker\<close> returns the worker of version \<^verbatim>\<open>20240101.2\<close>.
\<close>

theorem latest_ignores_numeric_order:
  "getLatestBackgroundWorker scn_ten = Some scn_w2
   \<and> map (bw_version \<circ> snd) (backgroundWorkers scn_ten) = [''20240101.2'', ''20240101.10'']
   \<and> getLatestBackgroundWorker
        (scn_ten\<lparr>backgroundWorkers := rev (backgroundWorkers scn_ten)\<rparr>) = Some scn_w2"
  by (simp add: getLatestBackgroundWorker_def scn_ten_def scn_running_def scn_w2_def scn_w10_def
      scn_worker_def)

text \<open>
  Claim C8: \<open>latest()\<close> is undefined exactly when the registry is empty, and otherwise
  returns a registered worker whose version string is greatest in the lexicographic
  order of strings; an unpinned run that reaches the send is dispatched against that
  worker, and the message sent names it.
\<close>

theorem latest_is_lexicographically_greatest:
  "(getLatestBackgroundWorker c = None \<longleftrightarrow> backgroundWorkers c = []) \<and>
   (\<forall>b. getLatestBackgroundWorker c = Some b \<longrightarrow>
      b \<in> snd ` set (backgroundWorkers c) \<and>
      (\<forall>b' \<in> snd ` set (backgroundWorkers c). bw_version b' \<le> bw_version b)) \<and>
   (\<forall>message bw task run queue att w3.
      prepareAttempt c w = Dispatch message bw task run queue att w3 \<longrightarrow>
      tr_lockedToVersionId run = None \<longrightarrow>
      getLatestBackgroundWorker c = Some bw \<and>
      (throwing w Send = None \<longrightarrow>
         sent (snd (snd (doWorkInternal c w))) =
           sent w @ [executeRunsMessage bw (buildExecution (env c) bw task run queue att) run]))"
proof (intro conjI allI impI)
  show "(getLatestBackgroundWorker c = None) = (backgroundWorkers c = [])"
    by (rule latest_none)
next
  fix b assume "getLatestBackgroundWorker c = Some b"
  then show "b \<in> snd ` set (backgroundWorkers c)" by (rule latest_some(1))
next
  fix b assume "getLatestBackgroundWorker c = Some b"
  then show "\<forall>b' \<in> snd ` set (backgroundWorkers c). bw_version b' \<le> bw_version b"
    using latest_some(2) by blast
next
  fix message bw task run queue att w3
  assume prep: "prepareAttempt c w = Dispatch message bw task run queue att w3"
    and unpinned: "tr_lockedToVersionId run = None"
  from prepareAttempt_DispatchD [OF prep] obtain existing where
    sel: "selectBackgroundWorker c existing = Some bw"
    and run: "run = existing\<lparr>tr_lockedAt := Some (now w), tr_lockedById := Some (bwt_id task)\<rparr>"
    by blast
  from unpinned run have "tr_lockedToVersionId existing = None" by simp
  with sel show "getLatestBackgroundWorker c = Some bw"
    by (simp add: selectBackgroundWorker_def)
next
  fix message bw task run queue att w3
  assume prep: "prepareAttempt c w = Dispatch message bw task run queue att w3"
    and ok: "throwing w Send = None"
  from prepareAttempt_DispatchD [OF prep] obtain q rest where
    w3: "w3 = w\<lparr>marqs := Some (q\<lparr>mq_visible := rest\<rparr>),
             db := (db w)\<lparr>
               taskRuns := map (\<lambda>x. if tr_id x = qm_messageId message then run else x)
                             (taskRuns (db w)),
               taskRunAttempts := taskRunAttempts (db w) @ [att]\<rparr>\<rparr>"
    by blast
  have "throwing w3 Send = None" "sent w3 = sent w" using ok by (simp_all add: w3)
  then show "sent (snd (snd (doWorkInternal c w))) =
           sent w @ [executeRunsMessage bw (buildExecution (env c) bw task run queue att) run]"
    by (simp add: doWorkInternal_def prep sendExecution_ok)
qed

text \<open>
  Scenario S4 for C8: with \<^verbatim>\<open>20240101.1\<close> and \<^verbatim>\<open>20240101.2\<close> registered, the
  unpinned run \<^verbatim>\<open>r1\<close> is dispatched against \<^verbatim>\<open>20240101.2\<close>.
\<close>

theorem latest_is_lexicographically_greatest_witness:
  "getLatestBackgroundWorker scn_running = Some scn_w2
   \<and> scn_w2 \<in> snd ` set (backgroundWorkers scn_running)
   \<and> scn_w1 \<in> snd ` set (backgroundWorkers scn_running)
   \<and> bw_version scn_w1 \<le> bw_version scn_w2
   \<and> (\<exists>run att w3.
         prepareAttempt scn_running scn_world
           = Dispatch scn_message scn_w2 (scn_task ''ct_2'' ''cw_2'') run scn_queue att w3
         \<and> tr_lockedToVersionId run = None
         \<and> throwing scn_world Send = None
         \<and> sent (snd (snd (doWorkInternal scn_running scn_world)))
             = sent scn_world @
               [executeRunsMessage scn_w2
                  (buildExecution (env scn_running) scn_w2 (scn_task ''ct_2'' ''cw_2'') run
                     scn_queue att) run])"
proof -
  note T = latest_is_lexicographically_greatest [of scn_running scn_world]
  obtain run att w3 where
    prep: "prepareAttempt scn_running scn_world
             = Dispatch scn_message scn_w2 (scn_task ''ct_2'' ''cw_2'') run scn_queue att w3"
    and unpinned: "tr_lockedToVersionId run = None"
    using scn_running_prepare by blast
  have ok: "throwing scn_world Send = None" by (simp add: scn_world_def)
  have latest: "getLatestBackgroundWorker scn_running = Some scn_w2"
    using T prep unpinned by blast
  have sent: "sent (snd (snd (doWorkInternal scn_running scn_world)))
             = sent scn_world @
               [executeRunsMessage scn_w2
                  (buildExecution (env scn_running) scn_w2 (scn_task ''ct_2'' ''cw_2'') run
                     scn_queue att) run]"
    using T prep unpinned ok by blast
  have w1: "scn_w1 \<in> snd ` set (backgroundWorkers scn_running)"
    by (simp add: scn_running_def)
  have w2: "scn_w2 \<in> snd ` set (backgroundWorkers scn_running)"
    using T latest by blast
  have le: "bw_version scn_w1 \<le> bw_version scn_w2"
    using T latest w1 by blast
  show ?thesis
    using latest w1 w2 le prep unpinned ok sent by blast
qed




text \<open>
  Claim C6: each of the five poison outcomes ends the iteration with the message
  acknowledged, the next iteration scheduled in 100 ms, and nothing else changed: no nack,
  no attempt row, nothing sent. The outcomes are: the message body does not parse; the run
  row is missing; no worker version is available, which is a run pinned to a version
  that is not in the registry, or an unpinned run (no pin, or the empty string) and an
  empty registry; the chosen worker (the pinned one, or the latest for an unpinned run)
  has no task whose slug is the run's task identifier; the locking update reports no row.
  The queue client and store calls made on the way are taken to return.
\<close>

theorem poison_messages_are_acknowledged:
  assumes q: "marqs w = Some q" "mq_visible q = message # rest"
    and nothrow: "throwing w Dequeue = None" "throwing w Acknowledge = None"
      "throwing w FindRun = None" "throwing w UpdateRun = None"
    and poison:
      "MessageBody_safeParse (qm_data message) = None
       \<or> find (\<lambda>r. tr_id r = qm_messageId message) (taskRuns (db w)) = None
       \<or> (\<exists>run v. find (\<lambda>r. tr_id r = qm_messageId message) (taskRuns (db w)) = Some run
             \<and> tr_lockedToVersionId run = Some v \<and> v \<noteq> []
             \<and> map_of (backgroundWorkers c) v = None)
       \<or> (\<exists>run. find (\<lambda>r. tr_id r = qm_messageId message) (taskRuns (db w)) = Some run
             \<and> (tr_lockedToVersionId run = None \<or> tr_lockedToVersionId run = Some [])
             \<and> backgroundWorkers c = [])
       \<or> (\<exists>run bw. find (\<lambda>r. tr_id r = qm_messageId message) (taskRuns (db w)) = Some run
             \<and> ((\<exists>v. tr_lockedToVersionId run = Some v \<and> v \<noteq> []
                       \<and> map_of (backgroundWorkers c) v = Some bw)
                  \<or> ((tr_lockedToVersionId run = None \<or> tr_lockedToVersionId run = Some [])
                       \<and> getLatestBackgroundWorker c = Some bw))
             \<and> find (\<lambda>t. bwt_slug t = tr_taskIdentifier run) (bw_tasks bw) = None)
       \<or> (\<exists>run bw task. find (\<lambda>r. tr_id r = qm_messageId message) (taskRuns (db w)) = Some run
             \<and> ((\<exists>v. tr_lockedToVersionId run = Some v \<and> v \<noteq> []
                       \<and> map_of (backgroundWorkers c) v = Some bw)
                  \<or> ((tr_lockedToVersionId run = None \<or> tr_lockedToVersionId run = Some [])
                       \<and> getLatestBackgroundWorker c = Some bw))
             \<and> find (\<lambda>t. bwt_slug t = tr_taskIdentifier run) (bw_tasks bw) = Some task
             \<and> lockUpdateReturnsNull w)"
  shows "doWorkInternal c w =
     (Resolved, afterFirstAwait c w,
      w\<lparr>marqs := Some (q\<lparr>mq_visible := rest,
                          mq_actions := mq_actions q @ [Ack (qm_messageId message)]\<rparr>),
        timers := timers w @ [100]\<rparr>)"
proof -
  let ?c = "afterFirstAwait c w"
  have reg: "backgroundWorkers ?c = backgroundWorkers c"
    by (simp add: afterFirstAwait_def stop_def)
  have latest: "getLatestBackgroundWorker ?c = getLatestBackgroundWorker c"
    by (simp add: getLatestBackgroundWorker_def reg)
  have pinned: "selectBackgroundWorker ?c run = map_of (backgroundWorkers c) v"
    if "tr_lockedToVersionId run = Some v" "v \<noteq> []" for run v
    using that by (simp add: selectBackgroundWorker_def reg)
  have unpinned: "selectBackgroundWorker ?c run = getLatestBackgroundWorker c"
    if "tr_lockedToVersionId run = None \<or> tr_lockedToVersionId run = Some []" for run
    using that by (auto simp: selectBackgroundWorker_def latest)
  have chosen: "selectBackgroundWorker ?c run = Some bw"
    if "(\<exists>v. tr_lockedToVersionId run = Some v \<and> v \<noteq> []
               \<and> map_of (backgroundWorkers c) v = Some bw)
        \<or> ((tr_lockedToVersionId run = None \<or> tr_lockedToVersionId run = Some [])
               \<and> getLatestBackgroundWorker c = Some bw)" for run bw
    using that pinned unpinned by auto
  have "prepareAttempt c w = Exit (Resolved, ?c,
      w\<lparr>marqs := Some (q\<lparr>mq_visible := rest,
                          mq_actions := mq_actions q @ [Ack (qm_messageId message)]\<rparr>),
        timers := timers w @ [100]\<rparr>)"
    using poison
  proof (elim disjE)
    assume "MessageBody_safeParse (qm_data message) = None"
    then show ?thesis using q nothrow by (simp add: prepare_defs)
  next
    assume "find (\<lambda>r. tr_id r = qm_messageId message) (taskRuns (db w)) = None"
    then show ?thesis using q nothrow by (simp add: prepare_defs split: option.splits)
  next
    assume "\<exists>run v. find (\<lambda>r. tr_id r = qm_messageId message) (taskRuns (db w)) = Some run
             \<and> tr_lockedToVersionId run = Some v \<and> v \<noteq> []
             \<and> map_of (backgroundWorkers c) v = None"
    then obtain run v where run: "find (\<lambda>r. tr_id r = qm_messageId message) (taskRuns (db w)) = Some run"
      and pin: "tr_lockedToVersionId run = Some v" "v \<noteq> []"
      and miss: "map_of (backgroundWorkers c) v = None"
      by blast
    have "selectBackgroundWorker ?c run = None"
      using pinned [OF pin] miss by simp
    with run show ?thesis using q nothrow by (simp add: prepare_defs split: option.splits)
  next
    assume "\<exists>run. find (\<lambda>r. tr_id r = qm_messageId message) (taskRuns (db w)) = Some run
             \<and> (tr_lockedToVersionId run = None \<or> tr_lockedToVersionId run = Some [])
             \<and> backgroundWorkers c = []"
    then obtain run where run: "find (\<lambda>r. tr_id r = qm_messageId message) (taskRuns (db w)) = Some run"
      and nopin: "tr_lockedToVersionId run = None \<or> tr_lockedToVersionId run = Some []"
      and empty: "backgroundWorkers c = []"
      by blast
    have "selectBackgroundWorker ?c run = None"
      using unpinned [OF nopin] empty by (simp add: latest_none)
    with run show ?thesis using q nothrow by (simp add: prepare_defs split: option.splits)
  next
    assume "\<exists>run bw. find (\<lambda>r. tr_id r = qm_messageId message) (taskRuns (db w)) = Some run
             \<and> ((\<exists>v. tr_lockedToVersionId run = Some v \<and> v \<noteq> []
                       \<and> map_of (backgroundWorkers c) v = Some bw)
                  \<or> ((tr_lockedToVersionId run = None \<or> tr_lockedToVersionId run = Some [])
                       \<and> getLatestBackgroundWorker c = Some bw))
             \<and> find (\<lambda>t. bwt_slug t = tr_taskIdentifier run) (bw_tasks bw) = None"
    then obtain run bw where run: "find (\<lambda>r. tr_id r = qm_messageId message) (taskRuns (db w)) = Some run"
      and ch: "((\<exists>v. tr_lockedToVersionId run = Some v \<and> v \<noteq> []
                       \<and> map_of (backgroundWorkers c) v = Some bw)
                  \<or> ((tr_lockedToVersionId run = None \<or> tr_lockedToVersionId run = Some [])
                       \<and> getLatestBackgroundWorker c = Some bw))"
      and notask: "find (\<lambda>t. bwt_slug t = tr_taskIdentifier run) (bw_tasks bw) = None"
      by blast
    from run notask chosen [OF ch] show ?thesis
      using q nothrow by (simp add: prepare_defs split: option.splits)
  next
    assume "\<exists>run bw task. find (\<lambda>r. tr_id r = qm_messageId message) (taskRuns (db w)) = Some run
             \<and> ((\<exists>v. tr_lockedToVersionId run = Some v \<and> v \<noteq> []
                       \<and> map_of (backgroundWorkers c) v = Some bw)
                  \<or> ((tr_lockedToVersionId run = None \<or> tr_lockedToVersionId run = Some [])
                       \<and> getLatestBackgroundWorker c = Some bw))
             \<and> find (\<lambda>t. bwt_slug t = tr_taskIdentifier run) (bw_tasks bw) = Some task
             \<and> lockUpdateReturnsNull w"
    then obtain run bw task where run: "find (\<lambda>r. tr_id r = qm_messageId message) (taskRuns (db w)) = Some run"
      and ch: "((\<exists>v. tr_lockedToVersionId run = Some v \<and> v \<noteq> []
                       \<and> map_of (backgroundWorkers c) v = Some bw)
                  \<or> ((tr_lockedToVersionId run = None \<or> tr_lockedToVersionId run = Some [])
                       \<and> getLatestBackgroundWorker c = Some bw))"
      and task: "find (\<lambda>t. bwt_slug t = tr_taskIdentifier run) (bw_tasks bw) = Some task"
      and null: "lockUpdateReturnsNull w"
      by blast
    from run task null chosen [OF ch] show ?thesis
      using q nothrow by (simp add: prepare_defs split: option.splits)
  qed
  then show ?thesis by (simp add: doWorkInternal_def)
qed

text \<open>
  The poison outcomes for C6, each in a scenario of its own: a message of type
  \<^verbatim>\<open>UNKNOWN\<close> (scenario S5); no run row; the run pinned to a version that is not
  among the two registered; an empty registry; a registered worker without the task, once
  chosen as the latest and once by the pin; and a locking update that reports no row.
\<close>

theorem poison_messages_are_acknowledged_witness:
  "doWorkInternal scn_running scn_poisoned =
       (Resolved, scn_running,
        scn_poisoned\<lparr>marqs := Some \<lparr> mq_visible = [], mq_actions = [Ack ''cr_1''] \<rparr>,
                     timers := [100]\<rparr>)
   \<and> doWorkInternal scn_running (scn_world\<lparr>db := scn_store\<lparr>taskRuns := []\<rparr>\<rparr>) =
       (Resolved, scn_running,
        scn_world\<lparr>db := scn_store\<lparr>taskRuns := []\<rparr>,
                  marqs := Some \<lparr> mq_visible = [], mq_actions = [Ack ''cr_1''] \<rparr>,
                  timers := [100]\<rparr>)
   \<and> map fst (backgroundWorkers scn_running) = [''cw_1'', ''cw_2'']
   \<and> map tr_lockedToVersionId (taskRuns (db scn_pinned_miss)) = [Some ''cw_9'']
   \<and> doWorkInternal scn_running scn_pinned_miss =
       (Resolved, scn_running,
        scn_pinned_miss\<lparr>marqs := Some \<lparr> mq_visible = [], mq_actions = [Ack ''cr_1''] \<rparr>,
                        timers := [100]\<rparr>)
   \<and> doWorkInternal (scn_running\<lparr>backgroundWorkers := []\<rparr>) scn_world =
       (Resolved, scn_running\<lparr>backgroundWorkers := []\<rparr>,
        scn_world\<lparr>marqs := Some \<lparr> mq_visible = [], mq_actions = [Ack ''cr_1''] \<rparr>,
                  timers := [100]\<rparr>)
   \<and> doWorkInternal
        (scn_running\<lparr>backgroundWorkers := [(''cw_2'', scn_w2\<lparr>bw_tasks := []\<rparr>)]\<rparr>) scn_world =
       (Resolved, scn_running\<lparr>backgroundWorkers := [(''cw_2'', scn_w2\<lparr>bw_tasks := []\<rparr>)]\<rparr>,
        scn_world\<lparr>marqs := Some \<lparr> mq_visible = [], mq_actions = [Ack ''cr_1''] \<rparr>,
                  timers := [100]\<rparr>)
   \<and> doWorkInternal
        (scn_running\<lparr>backgroundWorkers :=
           [(''cw_9'', (scn_worker ''cw_9'' ''worker_nine'' ''20240101.0'' ''ct_9'')\<lparr>bw_tasks := []\<rparr>),
            (''cw_2'', scn_w2)]\<rparr>) scn_pinned_miss =
       (Resolved,
        scn_running\<lparr>backgroundWorkers :=
           [(''cw_9'', (scn_worker ''cw_9'' ''worker_nine'' ''20240101.0'' ''ct_9'')\<lparr>bw_tasks := []\<rparr>),
            (''cw_2'', scn_w2)]\<rparr>,
        scn_pinned_miss\<lparr>marqs := Some \<lparr> mq_visible = [], mq_actions = [Ack ''cr_1''] \<rparr>,
                        timers := [100]\<rparr>)
   \<and> doWorkInternal scn_running (scn_world\<lparr>lockUpdateReturnsNull := True\<rparr>) =
       (Resolved, scn_running,
        scn_world\<lparr>lockUpdateReturnsNull := True,
                  marqs := Some \<lparr> mq_visible = [], mq_actions = [Ack ''cr_1''] \<rparr>,
                  timers := [100]\<rparr>)"
proof -
  let ?q = "\<lparr> mq_visible = [scn_message], mq_actions = [] \<rparr>"
  let ?bad = "\<lparr> qm_messageId = ''cr_1'', qm_data = JObj [(''type'', JStr ''UNKNOWN'')] \<rparr>"
  let ?pinned = "scn_run\<lparr>tr_lockedToVersionId := Some ''cw_9''\<rparr>"
  have mid: "qm_messageId scn_message = ''cr_1''" by (simp add: scn_message_def)
  have nostop: "afterFirstAwait k scn_poisoned = k" "afterFirstAwait k scn_world = k"
    "afterFirstAwait k scn_pinned_miss = k"
    "afterFirstAwait k (scn_world\<lparr>db := scn_store\<lparr>taskRuns := []\<rparr>\<rparr>) = k"
    "afterFirstAwait k (scn_world\<lparr>lockUpdateReturnsNull := True\<rparr>) = k" for k
    by (simp_all add: afterFirstAwait_def scn_poisoned_def scn_pinned_miss_def scn_world_def)
  have a: "doWorkInternal scn_running scn_poisoned =
       (Resolved, scn_running,
        scn_poisoned\<lparr>marqs := Some \<lparr> mq_visible = [], mq_actions = [Ack ''cr_1''] \<rparr>,
                     timers := [100]\<rparr>)"
    using poison_messages_are_acknowledged
      [of scn_poisoned "\<lparr> mq_visible = [?bad], mq_actions = [] \<rparr>" ?bad "[]" scn_running]
    by (simp add: nostop) (simp add: scn_poisoned_def scn_world_def)
  let ?w2 = "scn_world\<lparr>db := scn_store\<lparr>taskRuns := []\<rparr>\<rparr>"
  have b: "doWorkInternal scn_running ?w2 =
       (Resolved, scn_running,
        ?w2\<lparr>marqs := Some \<lparr> mq_visible = [], mq_actions = [Ack ''cr_1''] \<rparr>, timers := [100]\<rparr>)"
    using poison_messages_are_acknowledged [of ?w2 ?q scn_message "[]" scn_running]
    by (simp add: nostop) (simp add: scn_world_def mid)
  have reg: "map fst (backgroundWorkers scn_running) = [''cw_1'', ''cw_2'']"
    by (simp add: scn_running_def)
  have pin: "map tr_lockedToVersionId (taskRuns (db scn_pinned_miss)) = [Some ''cw_9'']"
    by (simp add: scn_pinned_miss_def)
  have prun: "find (\<lambda>r. tr_id r = qm_messageId scn_message) (taskRuns (db scn_pinned_miss))
      = Some ?pinned"
    by (simp add: scn_pinned_miss_def scn_run_def mid)
  have pv: "tr_lockedToVersionId ?pinned = Some ''cw_9''" "''cw_9'' \<noteq> []" by simp_all
  have miss: "map_of (backgroundWorkers scn_running) ''cw_9'' = None"
    by (simp add: scn_running_def)
  have c: "doWorkInternal scn_running scn_pinned_miss =
       (Resolved, scn_running,
        scn_pinned_miss\<lparr>marqs := Some \<lparr> mq_visible = [], mq_actions = [Ack ''cr_1''] \<rparr>,
                        timers := [100]\<rparr>)"
    using poison_messages_are_acknowledged [of scn_pinned_miss ?q scn_message "[]" scn_running]
      prun pv miss
    by (simp add: nostop) (simp add: scn_pinned_miss_def scn_world_def mid)
  have run: "find (\<lambda>r. tr_id r = qm_messageId scn_message) (taskRuns (db scn_world)) = Some scn_run"
    by (simp add: scn_world_def scn_store_def scn_run_def mid)
  have unp: "tr_lockedToVersionId scn_run = None" by (simp add: scn_run_def)
  let ?c3 = "scn_running\<lparr>backgroundWorkers := []\<rparr>"
  have d: "doWorkInternal ?c3 scn_world =
       (Resolved, ?c3,
        scn_world\<lparr>marqs := Some \<lparr> mq_visible = [], mq_actions = [Ack ''cr_1''] \<rparr>,
                  timers := [100]\<rparr>)"
    using poison_messages_are_acknowledged [of scn_world ?q scn_message "[]" ?c3] run unp
    by (simp add: nostop) (simp add: scn_world_def mid)
  let ?c4 = "scn_running\<lparr>backgroundWorkers := [(''cw_2'', scn_w2\<lparr>bw_tasks := []\<rparr>)]\<rparr>"
  have l4: "getLatestBackgroundWorker ?c4 = Some (scn_w2\<lparr>bw_tasks := []\<rparr>)"
    by (simp add: getLatestBackgroundWorker_def)
  have e: "doWorkInternal ?c4 scn_world =
       (Resolved, ?c4,
        scn_world\<lparr>marqs := Some \<lparr> mq_visible = [], mq_actions = [Ack ''cr_1''] \<rparr>,
                  timers := [100]\<rparr>)"
    using poison_messages_are_acknowledged [of scn_world ?q scn_message "[]" ?c4] run unp l4
    by (simp add: nostop) (simp add: scn_world_def mid)
  let ?c5 = "scn_running\<lparr>backgroundWorkers :=
           [(''cw_9'', (scn_worker ''cw_9'' ''worker_nine'' ''20240101.0'' ''ct_9'')\<lparr>bw_tasks := []\<rparr>),
            (''cw_2'', scn_w2)]\<rparr>"
  have hit: "map_of (backgroundWorkers ?c5) ''cw_9''
      = Some ((scn_worker ''cw_9'' ''worker_nine'' ''20240101.0'' ''ct_9'')\<lparr>bw_tasks := []\<rparr>)"
    by simp
  have f: "doWorkInternal ?c5 scn_pinned_miss =
       (Resolved, ?c5,
        scn_pinned_miss\<lparr>marqs := Some \<lparr> mq_visible = [], mq_actions = [Ack ''cr_1''] \<rparr>,
                        timers := [100]\<rparr>)"
    using poison_messages_are_acknowledged [of scn_pinned_miss ?q scn_message "[]" ?c5]
      prun pv hit
    by (simp add: nostop) (simp add: scn_pinned_miss_def scn_world_def mid)
  let ?w5 = "scn_world\<lparr>lockUpdateReturnsNull := True\<rparr>"
  have l5: "getLatestBackgroundWorker scn_running = Some scn_w2"
    by (simp add: getLatestBackgroundWorker_def scn_running_def scn_w1_def scn_w2_def
        scn_worker_def)
  have task5: "find (\<lambda>t. bwt_slug t = tr_taskIdentifier scn_run) (bw_tasks scn_w2)
      = Some (scn_task ''ct_2'' ''cw_2'')"
    by (simp add: scn_w2_def scn_worker_def scn_task_def scn_run_def)
  have g: "doWorkInternal scn_running ?w5 =
       (Resolved, scn_running,
        ?w5\<lparr>marqs := Some \<lparr> mq_visible = [], mq_actions = [Ack ''cr_1''] \<rparr>, timers := [100]\<rparr>)"
    using poison_messages_are_acknowledged [of ?w5 ?q scn_message "[]" scn_running]
      run unp l5 task5
    by (simp add: nostop) (simp add: scn_world_def mid)
  from a b reg pin c d e f g show ?thesis by (intro conjI)
qed

text \<open>
  Claim C1 as the code has it. In the message of a dispatched run the top-level
  \<^verbatim>\<open>backgroundWorkerId\<close>, \<^verbatim>\<open>attempt.id\<close>, \<^verbatim>\<open>run.id\<close> and \<^verbatim>\<open>queue.id\<close> are
  the friendly identifiers of the worker, the attempt just inserted, the run and the queue
  row; \<^verbatim>\<open>attempt.backgroundWorkerId\<close>, \<^verbatim>\<open>attempt.backgroundWorkerTaskId\<close>,
  \<^verbatim>\<open>environment.id\<close>, \<^verbatim>\<open>organization.id\<close> and \<^verbatim>\<open>project.id\<close> are the
  database identifiers of the worker, the task, the environment, the organization and
  the project.
\<close>

theorem outbound_identifiers:
  assumes prep: "prepareAttempt c w = Dispatch message bw task run queue att w3"
    and ok: "throwing w Send = None"
  shows "\<exists>w'. doWorkInternal c w = (Resolved, c, w')
     \<and> sent w' =
         sent w @ [executeRunsMessage bw (buildExecution (env c) bw task run queue att) run]
     \<and> messageIdentifiers
           (executeRunsMessage bw (buildExecution (env c) bw task run queue att) run)
         = [bw_friendlyId bw, tra_friendlyId att, bw_id bw, bwt_id task, tr_friendlyId run,
            tq_friendlyId queue, env_id (env c), org_id (env_organization (env c)),
            proj_id (env_project (env c))]
     \<and> bw \<in> snd ` set (backgroundWorkers c)
     \<and> task \<in> set (bw_tasks bw)
     \<and> run \<in> set (taskRuns (db w'))
     \<and> queue \<in> set (taskQueues (db w'))
     \<and> att \<in> set (taskRunAttempts (db w'))
     \<and> tra_friendlyId att = newFriendlyId w"
proof -
  from prepareAttempt_DispatchD [OF prep] obtain q rest existing where
    ex: "find (\<lambda>r. tr_id r = qm_messageId message) (taskRuns (db w)) = Some existing"
    and sel: "selectBackgroundWorker c existing = Some bw"
    and tk: "find (\<lambda>t. bwt_slug t = tr_taskIdentifier existing) (bw_tasks bw) = Some task"
    and qu: "find (\<lambda>q. tq_runtimeEnvironmentId q = env_id (env c) \<and> tq_name q = tr_queue run)
        (taskQueues (db w)) = Some queue"
    and att: "att = newAttempt w task run (take 1 (attemptsDesc (qm_messageId message) (db w))) queue"
    and w3: "w3 = w\<lparr>marqs := Some (q\<lparr>mq_visible := rest\<rparr>),
             db := (db w)\<lparr>
               taskRuns := map (\<lambda>x. if tr_id x = qm_messageId message then run else x)
                             (taskRuns (db w)),
               taskRunAttempts := taskRunAttempts (db w) @ [att]\<rparr>\<rparr>"
    by blast
  let ?m = "executeRunsMessage bw (buildExecution (env c) bw task run queue att) run"
  let ?w' = "w3\<lparr>sent := sent w3 @ [?m], timers := timers w3 @ [100]\<rparr>"
  have ok3: "throwing w3 Send = None" using ok by (simp add: w3)
  have r: "doWorkInternal c w = (Resolved, c, ?w')"
    by (simp add: doWorkInternal_def prep sendExecution_ok [OF ok3])
  have s: "sent ?w' = sent w @ [?m]" by (simp add: w3)
  have ids: "messageIdentifiers ?m
         = [bw_friendlyId bw, tra_friendlyId att, bw_id bw, bwt_id task, tr_friendlyId run,
            tq_friendlyId queue, env_id (env c), org_id (env_organization (env c)),
            proj_id (env_project (env c))]"
    by (simp add: executeRunsMessage_def buildExecution_def descriptorIdentifiers_def)
  have m1: "bw \<in> snd ` set (backgroundWorkers c)" using sel by (rule select_mem)
  have m2: "task \<in> set (bw_tasks bw)" using tk by (rule find_Some_mem)
  have m3: "run \<in> set (taskRuns (db ?w'))"
    using lock_map_mem [OF ex] by (simp add: w3)
  have m4: "queue \<in> set (taskQueues (db ?w'))"
    using find_Some_mem [OF qu] by (simp add: w3)
  have m5: "att \<in> set (taskRunAttempts (db ?w'))" by (simp add: w3)
  have m6: "tra_friendlyId att = newFriendlyId w" by (simp add: att newAttempt_def)
  from r s ids m1 m2 m3 m4 m5 m6 show ?thesis by blast
qed

text \<open>
  Claim C1 as stated (no internal database identifier appears in the payload) fails in
  scenario S1: five of the nine identifiers of the message are primary keys of rows.
\<close>

theorem internal_ids_cross_the_boundary:
  "doWorkInternal scn_running scn_world = (Resolved, scn_running, scn_dispatched)
   \<and> sent scn_world = []
   \<and> sent scn_dispatched = [executeRunsMessage scn_w2 scn_execution scn_locked_run]
   \<and> messageIdentifiers (executeRunsMessage scn_w2 scn_execution scn_locked_run)
       = [''worker_two'', ''attempt_one'', ''cw_2'', ''ct_2'', ''run_one'', ''queue_one'',
          ''env_1'', ''org_1'', ''proj_1'']
   \<and> databaseIds (env scn_running) (db scn_dispatched)
       = [''cr_1'', ''ca_1'', ''cq_1'', ''cw_1'', ''cw_2'', ''cw_10'', ''ct_1'', ''ct_2'', ''ct_10'',
          ''env_1'', ''org_1'', ''proj_1'']
   \<and> filter (\<lambda>i. i \<in> set (databaseIds (env scn_running) (db scn_dispatched)))
         (messageIdentifiers (executeRunsMessage scn_w2 scn_execution scn_locked_run))
       = [''cw_2'', ''ct_2'', ''env_1'', ''org_1'', ''proj_1'']"
proof -
  have a: "sent scn_world = []"
    "sent scn_dispatched = [executeRunsMessage scn_w2 scn_execution scn_locked_run]"
    by (simp_all add: scn_dispatched_def scn_world_def)
  have b: "messageIdentifiers (executeRunsMessage scn_w2 scn_execution scn_locked_run)
       = [''worker_two'', ''attempt_one'', ''cw_2'', ''ct_2'', ''run_one'', ''queue_one'',
          ''env_1'', ''org_1'', ''proj_1'']"
    by (simp add: executeRunsMessage_def scn_execution_def buildExecution_def
        descriptorIdentifiers_def scn_w2_def scn_worker_def scn_task_def scn_attempt_def
        scn_locked_run_def scn_run_def scn_queue_def scn_env_def)
  have c: "databaseIds (env scn_running) (db scn_dispatched)
       = [''cr_1'', ''ca_1'', ''cq_1'', ''cw_1'', ''cw_2'', ''cw_10'', ''ct_1'', ''ct_2'', ''ct_10'',
          ''env_1'', ''org_1'', ''proj_1'']"
    by (simp add: databaseIds_def scn_defs)
  have d: "filter (\<lambda>i. i \<in> set (databaseIds (env scn_running) (db scn_dispatched)))
         (messageIdentifiers (executeRunsMessage scn_w2 scn_execution scn_locked_run))
       = [''cw_2'', ''ct_2'', ''env_1'', ''org_1'', ''proj_1'']"
    unfolding b c by simp
  from scn_world_dispatch a b c d show ?thesis by (intro conjI)
qed

text \<open>Scenario S1 for C1.\<close>

theorem outbound_identifiers_witness:
  "\<exists>run att w3 w'.
     prepareAttempt scn_running scn_world
       = Dispatch scn_message scn_w2 (scn_task ''ct_2'' ''cw_2'') run scn_queue att w3
     \<and> throwing scn_world Send = None
     \<and> doWorkInternal scn_running scn_world = (Resolved, scn_running, w')
     \<and> sent w' = sent scn_world
         @ [executeRunsMessage scn_w2
              (buildExecution (env scn_running) scn_w2 (scn_task ''ct_2'' ''cw_2'') run scn_queue att)
              run]
     \<and> messageIdentifiers
           (executeRunsMessage scn_w2
              (buildExecution (env scn_running) scn_w2 (scn_task ''ct_2'' ''cw_2'') run scn_queue att)
              run)
         = [bw_friendlyId scn_w2, tra_friendlyId att, bw_id scn_w2,
            bwt_id (scn_task ''ct_2'' ''cw_2''), tr_friendlyId run, tq_friendlyId scn_queue,
            env_id (env scn_running), org_id (env_organization (env scn_running)),
            proj_id (env_project (env scn_running))]
     \<and> tra_friendlyId att = ''attempt_one''
     \<and> att \<in> set (taskRunAttempts (db w'))"
proof -
  obtain run att w3 where
    prep: "prepareAttempt scn_running scn_world
             = Dispatch scn_message scn_w2 (scn_task ''ct_2'' ''cw_2'') run scn_queue att w3"
    using scn_running_prepare by blast
  have ok: "throwing scn_world Send = None" by (simp add: scn_world_def)
  have nf: "newFriendlyId scn_world = ''attempt_one''" by (simp add: scn_world_def)
  from outbound_identifiers [OF prep ok] nf prep ok show ?thesis by metis
qed

text \<open>
  Claim C2 as the code has it. For every outcome of an iteration in which no call of the
  queue client or the store throws (the failing results that are values are all covered:
  an empty queue, a body that does not parse, a read or a locking update that finds no
  row, a throwing transport send), \<^verbatim>\<open>#doWorkInternal\<close> and, on an enabled consumer
  whose window is open, \<^verbatim>\<open>#doWork\<close> resolve, and the iteration has either scheduled
  the next iteration or returned after nacking the message. An exception of the queue
  client is not caught: when dequeue throws, both promises reject with it and no iteration
  is scheduled.
\<close>

theorem iteration_resolves_unless_a_collaborator_throws:
  "((\<forall>k. k \<noteq> Send \<longrightarrow> throwing w k = None)
      \<and> \<not> list_ex (\<lambda>b. tra_id b = newAttemptId w \<or> tra_friendlyId b = newFriendlyId w)
            (taskRunAttempts (db w)) \<longrightarrow>
      (\<exists>c' w'. doWorkInternal c w = (Resolved, c', w') \<and>
         ((\<exists>ms. timers w' = timers w @ [ms]) \<or>
          (timers w' = timers w \<and>
             (\<exists>q' acts mid. marqs w' = Some q' \<and> mq_actions q' = acts @ [Nack mid None]))))
      \<and> (enabled c \<and> (perTraceCountdown c = Some 0 \<or> lastNewTrace c \<noteq> None) \<longrightarrow>
           (\<exists>c' w'. doWork c w = (Resolved, c', w') \<and>
              ((\<exists>ms. timers w' = timers w @ [ms]) \<or>
               (timers w' = timers w \<and>
                  (\<exists>q' acts mid. marqs w' = Some q' \<and> mq_actions q' = acts @ [Nack mid None]))))))
   \<and> (\<forall>q e. marqs w = Some q \<and> throwing w Dequeue = Some e \<longrightarrow>
         fst (doWorkInternal c w) = Rejected e
         \<and> timers (snd (snd (doWorkInternal c w))) = timers w
         \<and> (enabled c \<and> (perTraceCountdown c = Some 0 \<or> lastNewTrace c \<noteq> None) \<longrightarrow>
              fst (doWork c w) = Rejected e \<and> timers (snd (snd (doWork c w))) = timers w))"
proof (intro conjI impI allI)
  assume h: "(\<forall>k. k \<noteq> Send \<longrightarrow> throwing w k = None)
      \<and> \<not> list_ex (\<lambda>b. tra_id b = newAttemptId w \<or> tra_friendlyId b = newFriendlyId w)
            (taskRunAttempts (db w))"
  then obtain c' w' where
    "doWorkInternal c w = (Resolved, c', w')"
    "timers w' = timers w @ [100] \<or> timers w' = timers w @ [1000] \<or>
      (\<not> enabled (afterFirstAwait c w) \<and> timers w' = timers w \<and>
         (\<exists>q' acts mid. marqs w' = Some q' \<and> mq_actions q' = acts @ [Nack mid None]))"
    using doWorkInternal_resolves [of w c] by blast
  then show "\<exists>c' w'. doWorkInternal c w = (Resolved, c', w') \<and>
         ((\<exists>ms. timers w' = timers w @ [ms]) \<or>
          (timers w' = timers w \<and>
             (\<exists>q' acts mid. marqs w' = Some q' \<and> mq_actions q' = acts @ [Nack mid None])))"
    by blast
next
  assume h: "(\<forall>k. k \<noteq> Send \<longrightarrow> throwing w k = None)
      \<and> \<not> list_ex (\<lambda>b. tra_id b = newAttemptId w \<or> tra_friendlyId b = newFriendlyId w)
            (taskRunAttempts (db w))"
    and en: "enabled c \<and> (perTraceCountdown c = Some 0 \<or> lastNewTrace c \<noteq> None)"
  then obtain c' w' where
    "doWork c w = (Resolved, c', w')"
    "timers w' = timers w @ [100] \<or> timers w' = timers w @ [1000] \<or>
      (stopLands w \<and> timers w' = timers w \<and>
         (\<exists>q' acts mid. marqs w' = Some q' \<and> mq_actions q' = acts @ [Nack mid None]))"
    using doWork_resolves [of w c] by blast
  then show "\<exists>c' w'. doWork c w = (Resolved, c', w') \<and>
              ((\<exists>ms. timers w' = timers w @ [ms]) \<or>
               (timers w' = timers w \<and>
                  (\<exists>q' acts mid. marqs w' = Some q' \<and> mq_actions q' = acts @ [Nack mid None])))"
    by blast
next
  fix q e
  assume "marqs w = Some q \<and> throwing w Dequeue = Some e"
  then show "fst (doWorkInternal c w) = Rejected e"
    using dequeue_throws [of w q e c] by simp
next
  fix q e
  assume "marqs w = Some q \<and> throwing w Dequeue = Some e"
  then show "timers (snd (snd (doWorkInternal c w))) = timers w"
    using dequeue_throws [of w q e c] by simp
next
  fix q e
  assume "marqs w = Some q \<and> throwing w Dequeue = Some e"
    and "enabled c \<and> (perTraceCountdown c = Some 0 \<or> lastNewTrace c \<noteq> None)"
  then show "fst (doWork c w) = Rejected e"
    using doWork_dequeue_throws by blast
next
  fix q e
  assume "marqs w = Some q \<and> throwing w Dequeue = Some e"
    and "enabled c \<and> (perTraceCountdown c = Some 0 \<or> lastNewTrace c \<noteq> None)"
  then show "timers (snd (snd (doWork c w))) = timers w"
    using doWork_dequeue_throws by blast
qed

text \<open>
  Claim C2 as stated (no exception propagates out of the loop) fails when the queue
  client's dequeue throws: the iteration rejects and no timer is set.
\<close>

theorem dequeue_failure_escapes_the_loop:
  "enabled scn_running
   \<and> doWork scn_running scn_queue_down
       = (Rejected (ErrorObj ''connection lost''), scn_running, scn_queue_down)
   \<and> doWorkInternal scn_running scn_queue_down
       = (Rejected (ErrorObj ''connection lost''), scn_running, scn_queue_down)
   \<and> timers scn_queue_down = []"
  by (simp add: doWork_def traceExpired_def doWorkInternal_def prepareAttempt_def
      dequeueMessageInEnv_def afterFirstAwait_def Let_def scn_queue_down_def scn_world_def
      scn_running_def scn_consumer_def constructor_def)

text \<open>
  For C2: scenario S1, where the iteration schedules the next one; the same with the socket
  closing during the iteration, where it nacks and returns; and the failing queue.
\<close>

theorem iteration_resolves_unless_a_collaborator_throws_witness:
  "throwing scn_world = (\<lambda>k. None)
   \<and> taskRunAttempts (db scn_world) = []
   \<and> enabled scn_running
   \<and> lastNewTrace scn_running = Some 5000
   \<and> (\<exists>c' w'. doWorkInternal scn_running scn_world = (Resolved, c', w') \<and>
         ((\<exists>ms. timers w' = timers scn_world @ [ms]) \<or>
          (timers w' = timers scn_world \<and>
             (\<exists>q' acts mid. marqs w' = Some q' \<and> mq_actions q' = acts @ [Nack mid None]))))
   \<and> (\<exists>c' w'. doWork scn_running scn_world = (Resolved, c', w') \<and>
         ((\<exists>ms. timers w' = timers scn_world @ [ms]) \<or>
          (timers w' = timers scn_world \<and>
             (\<exists>q' acts mid. marqs w' = Some q' \<and> mq_actions q' = acts @ [Nack mid None]))))
   \<and> throwing scn_stopping = (\<lambda>k. None)
   \<and> taskRunAttempts (db scn_stopping) = []
   \<and> stopLands scn_stopping
   \<and> (\<exists>c' w'. doWork scn_running scn_stopping = (Resolved, c', w') \<and>
         ((\<exists>ms. timers w' = timers scn_stopping @ [ms]) \<or>
          (timers w' = timers scn_stopping \<and>
             (\<exists>q' acts mid. marqs w' = Some q' \<and> mq_actions q' = acts @ [Nack mid None]))))
   \<and> (case doWork scn_running scn_stopping of
        (r, c', w') \<Rightarrow>
          r = Resolved \<and> \<not> enabled c' \<and> timers w' = [] \<and> sent w' = []
          \<and> taskRunAttempts (db w') = []
          \<and> map_option mq_actions (marqs w') = Some [Nack ''cr_1'' None])
   \<and> marqs scn_queue_down = marqs scn_world
   \<and> throwing scn_queue_down Dequeue = Some (ErrorObj ''connection lost'')
   \<and> fst (doWorkInternal scn_running scn_queue_down) = Rejected (ErrorObj ''connection lost'')
   \<and> timers (snd (snd (doWorkInternal scn_running scn_queue_down))) = timers scn_queue_down"
proof -
  have h: "throwing scn_world = (\<lambda>k. None)" "taskRunAttempts (db scn_world) = []"
    "enabled scn_running" "lastNewTrace scn_running = Some 5000"
    by (simp_all add: scn_world_def scn_store_def scn_running_def)
  have s: "throwing scn_stopping = (\<lambda>k. None)" "taskRunAttempts (db scn_stopping) = []"
    "stopLands scn_stopping"
    by (simp_all add: scn_stopping_def scn_world_def scn_store_def)
  have g: "marqs scn_queue_down = marqs scn_world"
    "marqs scn_queue_down = Some \<lparr> mq_visible = [scn_message], mq_actions = [] \<rparr>"
    "throwing scn_queue_down Dequeue = Some (ErrorObj ''connection lost'')"
    by (simp_all add: scn_queue_down_def scn_world_def)
  from iteration_resolves_unless_a_collaborator_throws [of scn_world scn_running] h
  have a: "\<exists>c' w'. doWorkInternal scn_running scn_world = (Resolved, c', w') \<and>
         ((\<exists>ms. timers w' = timers scn_world @ [ms]) \<or>
          (timers w' = timers scn_world \<and>
             (\<exists>q' acts mid. marqs w' = Some q' \<and> mq_actions q' = acts @ [Nack mid None])))"
    and b: "\<exists>c' w'. doWork scn_running scn_world = (Resolved, c', w') \<and>
         ((\<exists>ms. timers w' = timers scn_world @ [ms]) \<or>
          (timers w' = timers scn_world \<and>
             (\<exists>q' acts mid. marqs w' = Some q' \<and> mq_actions q' = acts @ [Nack mid None])))"
    by simp_all
  from iteration_resolves_unless_a_collaborator_throws [of scn_stopping scn_running] h(3,4) s
  have c: "\<exists>c' w'. doWork scn_running scn_stopping = (Resolved, c', w') \<and>
         ((\<exists>ms. timers w' = timers scn_stopping @ [ms]) \<or>
          (timers w' = timers scn_stopping \<and>
             (\<exists>q' acts mid. marqs w' = Some q' \<and> mq_actions q' = acts @ [Nack mid None])))"
    by simp
  from iteration_resolves_unless_a_collaborator_throws [of scn_queue_down scn_running] g(2,3)
  have d: "fst (doWorkInternal scn_running scn_queue_down) = Rejected (ErrorObj ''connection lost'')"
    "timers (snd (snd (doWorkInternal scn_running scn_queue_down))) = timers scn_queue_down"
    by blast+
  from h a b s c scn_stopping_doWork g(1,3) d show ?thesis by (intro conjI)
qed

text \<open>
  Claim C5 (on a failed completion with a retry timestamp and \<^verbatim>\<open>maxAttempts = 3\<close> the
  attempt is marked failed, the event \<^verbatim>\<open>Retry 1/2 delay\<close> is recorded ending at the
  timestamp, with style icon \<^verbatim>\<open>schedule-attempt\<close> and span seed \<^verbatim>\<open>retry-2\<close>, and the
  message is nacked at the timestamp). In scenario S2 all of it holds but the icon:
  \<^verbatim>\<open>taskRunCompleted\<close> passes \<^verbatim>\<open>schedule-attempt\<close> in the options, and
  \<^verbatim>\<open>recordEvent\<close> never reads \<^verbatim>\<open>options.attributes.style\<close>; the event it records
  has the icon \<^verbatim>\<open>play\<close>.
\<close>

theorem retry_event_is_recorded_with_icon_play:
  "(case taskRunCompleted ''worker_two'' scn_retry_completion scn_execution scn_running
           scn_dispatched of
      (r, c', w') \<Rightarrow>
        r = Resolved
        \<and> map tra_status (taskRunAttempts (db w')) = [FAILED]
        \<and> map tra_completedAt (taskRunAttempts (db w')) = [Some 5000]
        \<and> map ev_message (eventBatch w') = [''Retry 1/2 delay'']
        \<and> map (\<lambda>e. ev_startTime e + ev_duration e div 1000000) (eventBatch w') = [9000]
        \<and> map ev_spanId (eventBatch w')
            = [generateDeterministicSpanId (sha1 scn_world) ''abc'' ''retry-2'']
        \<and> map ev_style (eventBatch w') = [[(''icon'', AString ''play'')]]
        \<and> map_option mq_actions (marqs w') = Some [Nack ''cr_1'' (Some 9000)])
   \<and> ta_style (teo_attributes (retryEventOptions c a run rc t md))
       = Some [(''icon'', AString ''schedule-attempt'')]"
  by (simp add: scn_defs completion_defs Let_def)

text \<open>
  Claim C7: the attempt inserted by an iteration has the greatest attempt number of its
  run plus one, and 1 when the run has none; and when every run's attempt numbers, in
  insertion order, are \<open>1, 2, \<dots>, n\<close>, they still are after an iteration
  (\<^verbatim>\<open>#doWorkInternal\<close>, \<^verbatim>\<open>#doWork\<close>) and after a completion.
\<close>

theorem attempt_numbers_are_consecutive:
  "(\<forall>message bw task run queue att w3.
      prepareAttempt c w = Dispatch message bw task run queue att w3 \<longrightarrow>
        tra_taskRunId att = qm_messageId message
        \<and> taskRunAttempts (db w3) = taskRunAttempts (db w) @ [att]
        \<and> tra_number att =
            (case attemptNumbers (qm_messageId message) (db w) of
               [] \<Rightarrow> 1
             | n # ns \<Rightarrow> Max (set (n # ns)) + 1))
   \<and> ((\<forall>rid. attemptNumbers rid (db w) = [1..int (length (attemptNumbers rid (db w)))]) \<longrightarrow>
        (\<forall>rid. attemptNumbers rid (db (snd (snd (doWorkInternal c w))))
                 = [1..int (length (attemptNumbers rid (db (snd (snd (doWorkInternal c w))))))])
        \<and> (\<forall>rid. attemptNumbers rid (db (snd (snd (doWork c w))))
                 = [1..int (length (attemptNumbers rid (db (snd (snd (doWork c w))))))])
        \<and> (\<forall>rid. attemptNumbers rid
                     (db (snd (snd (taskRunCompleted workerId completion execution c w))))
                 = [1..int (length (attemptNumbers rid
                     (db (snd (snd (taskRunCompleted workerId completion execution c w))))))]))"
proof (intro conjI allI impI)
  fix message bw task run queue att w3
  assume prep: "prepareAttempt c w = Dispatch message bw task run queue att w3"
  from dispatch_attempt_number [OF prep]
  show "tra_taskRunId att = qm_messageId message"
    and "taskRunAttempts (db w3) = taskRunAttempts (db w) @ [att]"
    and "tra_number att =
            (case attemptNumbers (qm_messageId message) (db w) of
               [] \<Rightarrow> 1
             | n # ns \<Rightarrow> Max (set (n # ns)) + 1)"
    by simp_all
next
  fix rid
  assume inv: "\<forall>rid. attemptNumbers rid (db w) = [1..int (length (attemptNumbers rid (db w)))]"
  obtain r c' w' where run: "doWorkInternal c w = (r, c', w')"
    by (cases "doWorkInternal c w") auto
  from doWorkInternal_numbered [OF inv run, of rid]
  show "attemptNumbers rid (db (snd (snd (doWorkInternal c w))))
                 = [1..int (length (attemptNumbers rid (db (snd (snd (doWorkInternal c w))))))]"
    by (simp add: run)
next
  fix rid
  assume inv: "\<forall>rid. attemptNumbers rid (db w) = [1..int (length (attemptNumbers rid (db w)))]"
  then show "attemptNumbers rid (db (snd (snd (doWork c w))))
                 = [1..int (length (attemptNumbers rid (db (snd (snd (doWork c w))))))]"
    by (rule doWork_numbered)
next
  fix rid
  assume inv: "\<forall>rid. attemptNumbers rid (db w) = [1..int (length (attemptNumbers rid (db w)))]"
  obtain r c' w' where run: "taskRunCompleted workerId completion execution c w = (r, c', w')"
    by (cases "taskRunCompleted workerId completion execution c w") auto
  from taskRunCompleted_db [OF run, of rid] inv
  show "attemptNumbers rid
                     (db (snd (snd (taskRunCompleted workerId completion execution c w))))
                 = [1..int (length (attemptNumbers rid
                     (db (snd (snd (taskRunCompleted workerId completion execution c w))))))]"
    by (simp add: run)
qed

text \<open>Scenario S2 for C7: the redelivery after the failed attempt 1 gets number 2.\<close>

theorem attempt_numbers_are_consecutive_witness:
  "(\<exists>run att w3.
      prepareAttempt scn_running scn_redelivered
        = Dispatch scn_message scn_w2 (scn_task ''ct_2'' ''cw_2'') run scn_queue att w3
      \<and> attemptNumbers (qm_messageId scn_message) (db scn_redelivered) = [1]
      \<and> tra_number att = 2
      \<and> tra_taskRunId att = ''cr_1''
      \<and> taskRunAttempts (db w3) = taskRunAttempts (db scn_redelivered) @ [att])
   \<and> attemptNumbers ''cr_1'' (db scn_redelivered)
       = [1..int (length (attemptNumbers ''cr_1'' (db scn_redelivered)))]
   \<and> attemptNumbers ''cr_1'' (db (snd (snd (doWork scn_running scn_redelivered))))
       = [1..int (length (attemptNumbers ''cr_1''
                           (db (snd (snd (doWork scn_running scn_redelivered))))))]
   \<and> attemptNumbers ''cr_1''
        (db (snd (snd (taskRunCompleted ''worker_two'' scn_retry_completion scn_execution
                         scn_running scn_dispatched))))
       = [1..int (length (attemptNumbers ''cr_1''
            (db (snd (snd (taskRunCompleted ''worker_two'' scn_retry_completion scn_execution
                             scn_running scn_dispatched))))))]"
proof -
  note T = attempt_numbers_are_consecutive [of scn_running scn_redelivered]
  note U = attempt_numbers_are_consecutive [of scn_running scn_dispatched
      "''worker_two''" scn_retry_completion scn_execution]
  obtain run att w3 where
    prep: "prepareAttempt scn_running scn_redelivered
        = Dispatch scn_message scn_w2 (scn_task ''ct_2'' ''cw_2'') run scn_queue att w3"
    using scn_redelivered_prepare by blast
  have nums: "attemptNumbers rid (db scn_redelivered) = (if rid = ''cr_1'' then [1] else [])" for rid
    by (simp add: attemptNumbers_def scn_redelivered_def scn_world_def scn_store_def
        scn_attempt_def)
  have nums': "attemptNumbers rid (db scn_dispatched) = (if rid = ''cr_1'' then [1] else [])" for rid
    by (simp add: attemptNumbers_def scn_dispatched_def scn_world_def scn_store_def
        scn_attempt_def)
  have mid: "qm_messageId scn_message = ''cr_1''" by (simp add: scn_message_def)
  have inv: "\<forall>rid. attemptNumbers rid (db scn_redelivered)
       = [1..int (length (attemptNumbers rid (db scn_redelivered)))]"
    by (simp add: nums)
  have inv': "\<forall>rid. attemptNumbers rid (db scn_dispatched)
       = [1..int (length (attemptNumbers rid (db scn_dispatched)))]"
    by (simp add: nums')
  from T prep have
    a: "tra_taskRunId att = qm_messageId scn_message"
    "taskRunAttempts (db w3) = taskRunAttempts (db scn_redelivered) @ [att]"
    "tra_number att =
            (case attemptNumbers (qm_messageId scn_message) (db scn_redelivered) of
               [] \<Rightarrow> 1
             | n # ns \<Rightarrow> Max (set (n # ns)) + 1)"
    by blast+
  have two: "tra_number att = 2" using a(3) by (simp add: mid nums)
  from T inv have b: "attemptNumbers ''cr_1'' (db (snd (snd (doWork scn_running scn_redelivered))))
       = [1..int (length (attemptNumbers ''cr_1''
                           (db (snd (snd (doWork scn_running scn_redelivered))))))]"
    by blast
  from U inv' have c: "attemptNumbers ''cr_1''
        (db (snd (snd (taskRunCompleted ''worker_two'' scn_retry_completion scn_execution
                         scn_running scn_dispatched))))
       = [1..int (length (attemptNumbers ''cr_1''
            (db (snd (snd (taskRunCompleted ''worker_two'' scn_retry_completion scn_execution
                             scn_running scn_dispatched))))))]"
    by blast
  have d: "attemptNumbers (qm_messageId scn_message) (db scn_redelivered) = [1]"
    by (simp add: mid nums)
  have e: "attemptNumbers ''cr_1'' (db scn_redelivered)
       = [1..int (length (attemptNumbers ''cr_1'' (db scn_redelivered)))]"
    using inv by blast
  have "\<exists>run att w3.
      prepareAttempt scn_running scn_redelivered
        = Dispatch scn_message scn_w2 (scn_task ''ct_2'' ''cw_2'') run scn_queue att w3
      \<and> attemptNumbers (qm_messageId scn_message) (db scn_redelivered) = [1]
      \<and> tra_number att = 2
      \<and> tra_taskRunId att = ''cr_1''
      \<and> taskRunAttempts (db w3) = taskRunAttempts (db scn_redelivered) @ [att]"
    using prep d two a(1,2) mid by auto
  with e b c show ?thesis by (intro conjI)
qed

text \<open>
  Claim C9: an iteration (a call of \<^verbatim>\<open>#doWork\<close> on an enabled consumer, whose window
  was opened by \<^verbatim>\<open>#enable\<close> and whose span context is that of its span) rolls the
  window over exactly when the countdown is 0, or more than the timeout has passed since
  the window opened, or no span is open, or the force-rollover flag is set. When it does,
  an open span gets the attributes \<^verbatim>\<open>tasks.period.failures\<close> and
  \<^verbatim>\<open>tasks.period.successes\<close> and is ended before the new span starts, and the
  iteration runs with the countdown at its maximum, both counters 0 and the flag cleared.
  Otherwise no span is started or ended and the window's state is kept. Either way the
  countdown drops by one when the iteration resolves.
\<close>

theorem trace_window_rollover:
  assumes en: "enabled c"
    and opened: "lastNewTrace c = Some opened"
    and ctx: "currentSpanContext c = currentSpan c"
    and run: "doWork c w = (r, c', w')"
  shows
   "(if perTraceCountdown c = Some 0
        \<or> now w - opened > traceTimeoutSeconds (options c) * 1000
        \<or> currentSpan c = None
        \<or> endSpanInNextIteration c
     then (\<exists>rest. spans w' =
              spans w
              @ (case currentSpan c of
                   None \<Rightarrow> []
                 | Some s \<Rightarrow> [SetAttribute s ''tasks.period.failures'' (taskFailures c),
                              SetAttribute s ''tasks.period.successes'' (taskSuccesses c),
                              EndSpan s])
              @ [StartSpan (nextSpanId w) ''EnvironmentQueueConsumer.doWork()'']
              @ rest
              \<and> (\<forall>ev \<in> set rest. \<exists>s m. ev = RecordException s m))
          \<and> currentSpan c' = Some (nextSpanId w)
          \<and> currentSpanContext c' = Some (nextSpanId w)
          \<and> lastNewTrace c' = Some (now w)
          \<and> taskFailures c' = 0
          \<and> taskSuccesses c' = 0
          \<and> perTraceCountdown c' =
              Some (maximumItemsPerTrace (options c) - (if r = Resolved then 1 else 0))
          \<and> (endSpanInNextIteration c' \<longrightarrow> throwing w Send \<noteq> None)
     else (\<exists>rest. spans w' = spans w @ rest
              \<and> (\<forall>ev \<in> set rest. \<exists>s m. ev = RecordException s m))
          \<and> nextSpanId w' = nextSpanId w
          \<and> currentSpan c' = currentSpan c
          \<and> currentSpanContext c' = currentSpanContext c
          \<and> lastNewTrace c' = lastNewTrace c
          \<and> taskFailures c' = taskFailures c
          \<and> taskSuccesses c' = taskSuccesses c
          \<and> perTraceCountdown c' =
              map_option (\<lambda>n. n - (if r = Resolved then 1 else 0)) (perTraceCountdown c))"
proof -
  define expired where "expired \<longleftrightarrow> perTraceCountdown c = Some 0
        \<or> now w - opened > traceTimeoutSeconds (options c) * 1000
        \<or> currentSpan c = None
        \<or> endSpanInNextIteration c"
  have te: "traceExpired c w = Inr expired"
    using opened ctx by (auto simp: traceExpired_def expired_def)
  define cw where "cw = (if expired then rollover c w else (c, w))"
  obtain r0 c2 w2 where dwi: "doWorkInternal (fst cw) (snd cw) = (r0, c2, w2)"
    by (cases "doWorkInternal (fst cw) (snd cw)") auto
  from doWorkInternal_frame [OF dwi] have
    fc: "c2 = afterFirstAwait (fst cw) (snd cw)
         \<or> (c2 = (fst cw)\<lparr>endSpanInNextIteration := True\<rparr> \<and> throwing (snd cw) Send \<noteq> None)"
    and fs: "spans w2 = spans (snd cw)
          \<or> (\<exists>s m. currentSpan (fst cw) = Some s \<and> spans w2 = spans (snd cw) @ [RecordException s m])"
    and fn: "nextSpanId w2 = nextSpanId (snd cw)"
    by simp_all
  have afa: "afterFirstAwait (fst cw) (snd cw) = fst cw
         \<or> afterFirstAwait (fst cw) (snd cw) = (fst cw)\<lparr>enabled := False\<rparr>"
    by (simp add: afterFirstAwait_def stop_def)
  from fs obtain rest where rest: "spans w2 = spans (snd cw) @ rest"
    "\<forall>ev \<in> set rest. \<exists>s m. ev = RecordException s m"
    by auto
  have res: "r = r0" "w' = w2"
    "c' = (if r0 = Resolved
           then c2\<lparr>perTraceCountdown := map_option (\<lambda>n. n - 1) (perTraceCountdown c2)\<rparr>
           else c2)"
    using run en te dwi
    by (auto simp: doWork_def cw_def [symmetric] Let_def split: outcome.splits)
  have cnt: "perTraceCountdown c' =
       map_option (\<lambda>n. n - (if r = Resolved then 1 else 0)) (perTraceCountdown (fst cw))"
    using fc res afa by (cases "perTraceCountdown (fst cw)") auto
  have same: "currentSpan c' = currentSpan (fst cw)"
    "currentSpanContext c' = currentSpanContext (fst cw)"
    "lastNewTrace c' = lastNewTrace (fst cw)"
    "taskFailures c' = taskFailures (fst cw)"
    "taskSuccesses c' = taskSuccesses (fst cw)"
    using fc res afa by auto
  show ?thesis
  proof (cases expired)
    case True
    have cw: "cw = rollover c w" using True by (simp add: cw_def)
    have sp: "spans (snd cw) = spans w
              @ (case currentSpan c of
                   None \<Rightarrow> []
                 | Some s \<Rightarrow> [SetAttribute s ''tasks.period.failures'' (taskFailures c),
                              SetAttribute s ''tasks.period.successes'' (taskSuccesses c),
                              EndSpan s])
              @ [StartSpan (nextSpanId w) ''EnvironmentQueueConsumer.doWork()'']"
      by (simp add: cw rollover_def startSpan_def spanLog_def Let_def split: option.splits)
    have fields: "currentSpan (fst cw) = Some (nextSpanId w)"
      "currentSpanContext (fst cw) = Some (nextSpanId w)"
      "lastNewTrace (fst cw) = Some (now w)"
      "taskFailures (fst cw) = 0" "taskSuccesses (fst cw) = 0"
      "perTraceCountdown (fst cw) = Some (maximumItemsPerTrace (options c))"
      "\<not> endSpanInNextIteration (fst cw)"
      "throwing (snd cw) = throwing w"
      by (simp_all add: cw rollover_def startSpan_def spanLog_def Let_def split: option.splits)
    have flag: "endSpanInNextIteration c' \<longrightarrow> throwing w Send \<noteq> None"
      using fc res afa fields(7,8) by auto
    have "\<exists>rest. spans w' =
              spans w
              @ (case currentSpan c of
                   None \<Rightarrow> []
                 | Some s \<Rightarrow> [SetAttribute s ''tasks.period.failures'' (taskFailures c),
                              SetAttribute s ''tasks.period.successes'' (taskSuccesses c),
                              EndSpan s])
              @ [StartSpan (nextSpanId w) ''EnvironmentQueueConsumer.doWork()'']
              @ rest
              \<and> (\<forall>ev \<in> set rest. \<exists>s m. ev = RecordException s m)"
      using rest sp res(2) by auto
    then show ?thesis
      using True same cnt fields(1-6) flag unfolding expired_def by simp
  next
    case False
    have cw: "cw = (c, w)" using False by (simp add: cw_def)
    have "\<exists>rest. spans w' = spans w @ rest
              \<and> (\<forall>ev \<in> set rest. \<exists>s m. ev = RecordException s m)"
      using rest res(2) cw by auto
    then show ?thesis
      using False same cnt fn res(2) cw unfolding expired_def by simp
  qed
qed

text \<open>Scenario S6's next iteration (flag set) and an iteration inside the window, for C9.\<close>

theorem trace_window_rollover_witness:
  "enabled scn_flagged
   \<and> lastNewTrace scn_flagged = Some 5000
   \<and> currentSpanContext scn_flagged = currentSpan scn_flagged
   \<and> endSpanInNextIteration scn_flagged
   \<and> (\<exists>r c' w' rest.
        doWork scn_flagged scn_world = (r, c', w')
        \<and> spans w' = spans scn_world
             @ [SetAttribute 0 ''tasks.period.failures'' 2,
                SetAttribute 0 ''tasks.period.successes'' 5,
                EndSpan 0,
                StartSpan 1 ''EnvironmentQueueConsumer.doWork()'']
             @ rest
        \<and> currentSpan c' = Some 1
        \<and> lastNewTrace c' = Some 5000
        \<and> taskFailures c' = 0
        \<and> taskSuccesses c' = 0
        \<and> perTraceCountdown c' = Some (1000 - (if r = Resolved then 1 else 0)))
   \<and> enabled scn_running
   \<and> lastNewTrace scn_running = Some 5000
   \<and> currentSpanContext scn_running = currentSpan scn_running
   \<and> (\<exists>r c' w' rest.
        doWork scn_running scn_world = (r, c', w')
        \<and> spans w' = spans scn_world @ rest
        \<and> nextSpanId w' = nextSpanId scn_world
        \<and> currentSpan c' = Some 0
        \<and> perTraceCountdown c' = Some (999 - (if r = Resolved then 1 else 0)))"
proof -
  have h: "enabled scn_flagged" "lastNewTrace scn_flagged = Some 5000"
    "currentSpanContext scn_flagged = currentSpan scn_flagged"
    "endSpanInNextIteration scn_flagged"
    by (simp_all add: scn_flagged_def scn_running_def)
  have g: "enabled scn_running" "lastNewTrace scn_running = Some 5000"
    "currentSpanContext scn_running = currentSpan scn_running"
    by (simp_all add: scn_running_def)
  obtain r c' w' where run: "doWork scn_flagged scn_world = (r, c', w')"
    by (cases "doWork scn_flagged scn_world") auto
  obtain r2 c2 w2 where run2: "doWork scn_running scn_world = (r2, c2, w2)"
    by (cases "doWork scn_running scn_world") auto
  have vals: "currentSpan scn_flagged = Some 0" "taskFailures scn_flagged = 2"
    "taskSuccesses scn_flagged = 5" "nextSpanId scn_world = 1" "now scn_world = 5000"
    "maximumItemsPerTrace (options scn_flagged) = 1000"
    by (simp_all add: scn_flagged_def scn_running_def scn_consumer_def constructor_def
        scn_world_def)
  have vals2: "currentSpan scn_running = Some 0" "perTraceCountdown scn_running = Some 999"
    "now scn_world = 5000" "traceTimeoutSeconds (options scn_running) = 60"
    "\<not> endSpanInNextIteration scn_running"
    by (simp_all add: scn_running_def scn_consumer_def constructor_def scn_world_def)
  from trace_window_rollover [OF h(1,2,3) run] h(4)
  have a: "\<exists>rest. doWork scn_flagged scn_world = (r, c', w')
        \<and> spans w' = spans scn_world
             @ [SetAttribute 0 ''tasks.period.failures'' 2,
                SetAttribute 0 ''tasks.period.successes'' 5,
                EndSpan 0,
                StartSpan 1 ''EnvironmentQueueConsumer.doWork()'']
             @ rest
        \<and> currentSpan c' = Some 1
        \<and> lastNewTrace c' = Some 5000
        \<and> taskFailures c' = 0
        \<and> taskSuccesses c' = 0
        \<and> perTraceCountdown c' = Some (1000 - (if r = Resolved then 1 else 0))"
    using run by (auto simp: vals)
  from trace_window_rollover [OF g run2]
  have b: "\<exists>rest. doWork scn_running scn_world = (r2, c2, w2)
        \<and> spans w2 = spans scn_world @ rest
        \<and> nextSpanId w2 = nextSpanId scn_world
        \<and> currentSpan c2 = Some 0
        \<and> perTraceCountdown c2 = Some (999 - (if r2 = Resolved then 1 else 0))"
    using run2 by (auto simp: vals2)
  from a have a': "\<exists>r c' w' rest.
        doWork scn_flagged scn_world = (r, c', w')
        \<and> spans w' = spans scn_world
             @ [SetAttribute 0 ''tasks.period.failures'' 2,
                SetAttribute 0 ''tasks.period.successes'' 5,
                EndSpan 0,
                StartSpan 1 ''EnvironmentQueueConsumer.doWork()'']
             @ rest
        \<and> currentSpan c' = Some 1
        \<and> lastNewTrace c' = Some 5000
        \<and> taskFailures c' = 0
        \<and> taskSuccesses c' = 0
        \<and> perTraceCountdown c' = Some (1000 - (if r = Resolved then 1 else 0))"
    by blast
  from b have b': "\<exists>r c' w' rest.
        doWork scn_running scn_world = (r, c', w')
        \<and> spans w' = spans scn_world @ rest
        \<and> nextSpanId w' = nextSpanId scn_world
        \<and> currentSpan c' = Some 0
        \<and> perTraceCountdown c' = Some (999 - (if r = Resolved then 1 else 0))"
    by blast
  from h g a' b' show ?thesis by (intro conjI)
qed

text \<open>
  Claim C10: registering a worker on an enabled consumer changes nothing but the registry,
  where the worker is stored under its database identifier (an entry with that key is
  overwritten in place, a new one is added last). Countdown, counters, window timestamp and
  span are untouched, and nothing outside the consumer changes: no queue read, no timer,
  no second chain of iterations.
\<close>

theorem register_while_enabled:
  assumes "enabled c"
  shows "\<exists>r c'. registerBackgroundWorker friendlyId c w = (r, c', w)
     \<and> c' = c\<lparr>backgroundWorkers := backgroundWorkers c'\<rparr>
     \<and> enabled c'
     \<and> perTraceCountdown c' = perTraceCountdown c
     \<and> taskSuccesses c' = taskSuccesses c
     \<and> taskFailures c' = taskFailures c
     \<and> lastNewTrace c' = lastNewTrace c
     \<and> currentSpan c' = currentSpan c
     \<and> currentSpanContext c' = currentSpanContext c
     \<and> (case backgroundWorker_findUnique friendlyId (env_id (env c)) w of
           Inl e \<Rightarrow> r = Rejected e \<and> c' = c
         | Inr None \<Rightarrow> r = Resolved \<and> c' = c
         | Inr (Some bw) \<Rightarrow>
             r = Resolved
             \<and> map_of (backgroundWorkers c') = (map_of (backgroundWorkers c))(bw_id bw \<mapsto> bw)
             \<and> map fst (backgroundWorkers c') =
                 (if bw_id bw \<in> fst ` set (backgroundWorkers c)
                  then map fst (backgroundWorkers c)
                  else map fst (backgroundWorkers c) @ [bw_id bw]))"
  using assms
  by (auto simp: registerBackgroundWorker_def enable_def map_set_def map_of_obj_set fst_obj_set
      Let_def split: sum.splits option.splits)

text \<open>Registering \<^verbatim>\<open>20240101.10\<close> on the running consumer, for C10.\<close>

theorem register_while_enabled_witness:
  "enabled scn_running
   \<and> backgroundWorker_findUnique ''worker_ten'' (env_id (env scn_running)) scn_world = Inr (Some scn_w10)
   \<and> (\<exists>c'. registerBackgroundWorker ''worker_ten'' scn_running scn_world = (Resolved, c', scn_world)
        \<and> c' = scn_running\<lparr>backgroundWorkers := backgroundWorkers c'\<rparr>
        \<and> map_of (backgroundWorkers c') ''cw_10'' = Some scn_w10
        \<and> map fst (backgroundWorkers c') = [''cw_1'', ''cw_2'', ''cw_10'']
        \<and> perTraceCountdown c' = Some 999)"
proof -
  have en: "enabled scn_running" by (simp add: scn_running_def)
  have f: "backgroundWorker_findUnique ''worker_ten'' (env_id (env scn_running)) scn_world = Inr (Some scn_w10)"
    by (simp add: backgroundWorker_findUnique_def scn_defs)
  from register_while_enabled [OF en, of "''worker_ten''" scn_world] obtain r c' where
    r: "registerBackgroundWorker ''worker_ten'' scn_running scn_world = (r, c', scn_world)"
      "c' = scn_running\<lparr>backgroundWorkers := backgroundWorkers c'\<rparr>"
      "perTraceCountdown c' = perTraceCountdown scn_running"
      "(case backgroundWorker_findUnique ''worker_ten'' (env_id (env scn_running)) scn_world of
           Inl e \<Rightarrow> r = Rejected e \<and> c' = scn_running
         | Inr None \<Rightarrow> r = Resolved \<and> c' = scn_running
         | Inr (Some bw) \<Rightarrow>
             r = Resolved
             \<and> map_of (backgroundWorkers c') = (map_of (backgroundWorkers scn_running))(bw_id bw \<mapsto> bw)
             \<and> map fst (backgroundWorkers c') =
                 (if bw_id bw \<in> fst ` set (backgroundWorkers scn_running)
                  then map fst (backgroundWorkers scn_running)
                  else map fst (backgroundWorkers scn_running) @ [bw_id bw]))"
    by blast
  from r(4) have "r = Resolved"
    "map_of (backgroundWorkers c') ''cw_10'' = Some scn_w10"
    "map fst (backgroundWorkers c') = [''cw_1'', ''cw_2'', ''cw_10'']"
    unfolding f by (simp_all add: scn_running_def scn_w10_def scn_worker_def)
  moreover have "perTraceCountdown c' = Some 999"
    using r(3) by (simp add: scn_running_def)
  ultimately have "registerBackgroundWorker ''worker_ten'' scn_running scn_world = (Resolved, c', scn_world)
        \<and> c' = scn_running\<lparr>backgroundWorkers := backgroundWorkers c'\<rparr>
        \<and> map_of (backgroundWorkers c') ''cw_10'' = Some scn_w10
        \<and> map fst (backgroundWorkers c') = [''cw_1'', ''cw_2'', ''cw_10'']
        \<and> perTraceCountdown c' = Some 999"
    using r(1,2) by simp
  then have "\<exists>c'. registerBackgroundWorker ''worker_ten'' scn_running scn_world = (Resolved, c', scn_world)
        \<and> c' = scn_running\<lparr>backgroundWorkers := backgroundWorkers c'\<rparr>
        \<and> map_of (backgroundWorkers c') ''cw_10'' = Some scn_w10
        \<and> map fst (backgroundWorkers c') = [''cw_1'', ''cw_2'', ''cw_10'']
        \<and> perTraceCountdown c' = Some 999" ..
  with en f show ?thesis by (intro conjI)
qed

end
